theory Spec2Isabelle
  imports Complex_Main "HOL-Library.Sublist"
begin

section \<open>JavaScript strings\<close>

text \<open>
  A JavaScript string is modelled as a \<^typ>\<open>string\<close>: a list of code units, restricted to
  the code units U+0000 .. U+00FF that a \<^typ>\<open>char\<close> can hold. The functions below are
  the methods of \<^verbatim>\<open>String.prototype\<close> that the repository calls, with the meaning the
  language standard gives them on such strings.
\<close>

definition startsWith :: "string \<Rightarrow> string \<Rightarrow> bool" where
  "startsWith s p = (take (length p) s = p)"

fun str_includes :: "string \<Rightarrow> string \<Rightarrow> bool" where
  "str_includes [] p = (p = [])"
| "str_includes (c # cs) p = (startsWith (c # cs) p \<or> str_includes cs p)"

text \<open>\<^verbatim>\<open>s.indexOf(p)\<close>: the position of the first occurrence of \<open>p\<close>, or \<open>-1\<close>.\<close>

fun indexOf :: "string \<Rightarrow> string \<Rightarrow> int" where
  "indexOf [] p = (if p = [] then 0 else - 1)"
| "indexOf (c # cs) p =
     (if startsWith (c # cs) p then 0
      else (let i = indexOf cs p in if i < 0 then - 1 else i + 1))"

text \<open>\<^verbatim>\<open>s.substring(a, b)\<close> for \<open>0 \<le> a \<le> b\<close>, the only way the repository calls it.\<close>

definition substring :: "string \<Rightarrow> nat \<Rightarrow> nat \<Rightarrow> string" where
  "substring s a b = take (b - a) (drop a s)"

text \<open>
  The white space and line terminator code units below U+0100: TAB, LF, VT, FF, CR, SPACE
  and NBSP. \<^verbatim>\<open>trim\<close> removes them from both ends.
\<close>

definition isWhiteSpace :: "char \<Rightarrow> bool" where
  "isWhiteSpace c = (c \<in> set [CHR 0x09, CHR 0x0A, CHR 0x0B, CHR 0x0C, CHR 0x0D, CHR 0x20, CHR 0xA0])"

definition trim :: "string \<Rightarrow> string" where
  "trim s = rev (dropWhile isWhiteSpace (rev (dropWhile isWhiteSpace s)))"

text \<open>\<^verbatim>\<open>xs.join(sep)\<close> on an array of strings.\<close>

fun join :: "string \<Rightarrow> string list \<Rightarrow> string" where
  "join sep [] = []"
| "join sep [x] = x"
| "join sep (x # y # ys) = x @ sep @ join sep (y # ys)"

text \<open>The double quote, which the messages of the repository put around names.\<close>

definition dq :: string where
  "dq = [CHR 0x22]"

section \<open>Policy types (packages/policy/src/types.ts)\<close>

text \<open>
  An optional field is an \<^typ>\<open>'a option\<close>; a \<^verbatim>\<open>number\<close> that holds a count of
  milliseconds or bytes is an \<^typ>\<open>int\<close>. Field names carry a prefix where two interfaces
  of the source share a name.
\<close>

record FilesystemPolicy =
  fs_enabled :: bool
  readOnly :: bool
  maxFileSize :: int
  allowedPaths :: "string list option"
  blockedPaths :: "string list option"

record ShellPolicy =
  sh_enabled :: bool
  allowedCommands :: "string list option"
  blockedPatterns :: "string list option"
  sh_timeout :: int
  approvalRequired :: "string list option"

record NetworkPolicy =
  net_enabled :: bool
  allowedDomains :: "string list option"
  blockedDomains :: "string list option"

record Policy =
  policy_name :: string
  description :: "string option"
  filesystem :: FilesystemPolicy
  shell :: ShellPolicy
  network :: NetworkPolicy

record PolicyEvaluation =
  allowed :: bool
  requiresApproval :: bool
  reason :: "string option"
  suggestion :: "string option"
  policy :: "string option"

definition evaluation ::
  "bool \<Rightarrow> bool \<Rightarrow> string option \<Rightarrow> string option \<Rightarrow> string option \<Rightarrow> PolicyEvaluation" where
  "evaluation a q r s t =
     \<lparr>allowed = a, requiresApproval = q, reason = r, suggestion = s, policy = t\<rparr>"

section \<open>Shell rules (packages/policy/src/rules/shell.ts)\<close>

definition extractBaseCommand :: "string \<Rightarrow> string" where
  "extractBaseCommand command =
     (let trimmed = trim command;
          firstSpace = indexOf trimmed '' ''
      in if firstSpace = - 1 then trimmed else substring trimmed 0 (nat firstSpace))"

text \<open>\<^verbatim>\<open>patterns.some((pattern) => command.includes(pattern))\<close>\<close>

definition matchesAnyPattern :: "string \<Rightarrow> string list \<Rightarrow> bool" where
  "matchesAnyPattern command patterns = list_ex (\<lambda>pattern. str_includes command pattern) patterns"

text \<open>
  \<^verbatim>\<open>policy.blockedPatterns && matchesAnyPattern(...)\<close>: an absent list is falsy, a present
  one (an array, even an empty one) is truthy.
\<close>

definition presentAndMatches :: "string list option \<Rightarrow> string \<Rightarrow> bool" where
  "presentAndMatches patterns command =
     (case patterns of None \<Rightarrow> False | Some ps \<Rightarrow> matchesAnyPattern command ps)"

text \<open>
  \<^verbatim>\<open>policy.allowedCommands && policy.allowedCommands.length > 0\<close> holds exactly when the
  list is present and not empty; the absent list is read as the empty one.
\<close>

definition listOrEmpty :: "'a list option \<Rightarrow> 'a list" where
  "listOrEmpty xs = (case xs of None \<Rightarrow> [] | Some ys \<Rightarrow> ys)"

definition evaluateShellPolicy :: "ShellPolicy \<Rightarrow> string \<Rightarrow> PolicyEvaluation" where
  "evaluateShellPolicy p command =
     (if \<not> sh_enabled p then
        evaluation False False (Some ''Shell execution is disabled'')
          (Some ''Use a policy that allows shell execution'') (Some ''shell.enabled'')
      else if presentAndMatches (blockedPatterns p) command then
        evaluation False False (Some ''Command contains blocked pattern'') None
          (Some ''shell.blockedPatterns'')
      else if 0 < length (listOrEmpty (allowedCommands p))
              \<and> extractBaseCommand command \<notin> set (listOrEmpty (allowedCommands p)) then
        evaluation False False
          (Some (''Command '' @ dq @ extractBaseCommand command @ dq
                 @ '' is not in allowed commands''))
          (Some (''Allowed commands: '' @ join '', '' (listOrEmpty (allowedCommands p))))
          (Some ''shell.allowedCommands'')
      else if presentAndMatches (approvalRequired p) command then
        evaluation True True (Some ''Command requires approval'') None
          (Some ''shell.approvalRequired'')
      else evaluation True False None None None)"

text \<open>
  \<^verbatim>\<open>requestedTimeout && requestedTimeout < policy.timeout\<close>: an absent timeout and the
  number 0 are both falsy.
\<close>

definition getShellTimeout :: "ShellPolicy \<Rightarrow> int option \<Rightarrow> int" where
  "getShellTimeout p requestedTimeout =
     (case requestedTimeout of
        None \<Rightarrow> sh_timeout p
      | Some t \<Rightarrow> if t \<noteq> 0 \<and> t < sh_timeout p then t else sh_timeout p)"

section \<open>Regular expressions of the language runtime\<close>

text \<open>
  \<^verbatim>\<open>matchesPattern\<close> builds the source of a regular expression and hands it to
  \<^verbatim>\<open>new RegExp\<close>. What follows is the part of the runtime's pattern language those
  sources can use: literal code units, identity escapes of syntax characters, the dot, and
  the quantifiers \<^verbatim>\<open>*\<close> and \<^verbatim>\<open>?\<close>, each optionally followed by \<^verbatim>\<open>?\<close> (the lazy
  form). A quantifier with nothing before it is the runtime's SyntaxError
  "nothing to repeat". Any construct outside this part is reported as \<open>Unsupported\<close>.
\<close>

datatype RegExpError = SyntaxError | Unsupported

datatype Atom = Lit char | Dot

datatype Quantifier = Once | ZeroOrMore | ZeroOrOne

type_synonym RegExpBody = "(Atom \<times> Quantifier) list"

text \<open>The syntax characters that \<^verbatim>\<open>matchesPattern\<close> escapes: \<^verbatim>\<open>[.+^${}()|[\]\\]\<close>.\<close>

definition escapedChars :: "char list" where
  "escapedChars = [CHR ''.'', CHR ''+'', CHR ''^'', CHR ''$'', CHR ''{'', CHR ''}'', CHR ''('',
     CHR '')'', CHR ''|'', CHR ''['', CHR '']'', CHR 0x5C]"

text \<open>
  After an atom: the quantifier, if any, and the rest of the source. A lazy mark
  following the quantifier belongs to it.
\<close>

fun dropLazy :: "string \<Rightarrow> string" where
  "dropLazy (c # cs) = (if c = CHR ''?'' then cs else c # cs)"
| "dropLazy [] = []"

fun quantifier :: "string \<Rightarrow> Quantifier \<times> string" where
  "quantifier (c # cs) =
     (if c = CHR ''*'' then (ZeroOrMore, dropLazy cs)
      else if c = CHR ''?'' then (ZeroOrOne, dropLazy cs)
      else (Once, c # cs))"
| "quantifier [] = (Once, [])"

lemma length_dropLazy: "length (dropLazy s) \<le> length s"
  by (cases s) auto

lemma length_quantifier: "length (snd (quantifier s)) \<le> length s"
  using length_dropLazy [of "tl s"] by (cases s) (auto simp: le_Suc_eq)

function parseBody :: "string \<Rightarrow> RegExpError + RegExpBody" where
  "parseBody [] = Inr []"
| "parseBody (c # cs) =
     (if c = CHR 0x5C then
        (case cs of
           [] \<Rightarrow> Inl SyntaxError
         | e # rest \<Rightarrow>
             if e \<in> set escapedChars \<or> e = CHR ''*'' \<or> e = CHR ''?'' then
               (case parseBody (snd (quantifier rest)) of
                  Inl err \<Rightarrow> Inl err
                | Inr items \<Rightarrow> Inr ((Lit e, fst (quantifier rest)) # items))
             else Inl Unsupported)
      else if c = CHR ''*'' \<or> c = CHR ''?'' then Inl SyntaxError
      else if c = CHR ''.'' then
        (case parseBody (snd (quantifier cs)) of
           Inl err \<Rightarrow> Inl err
         | Inr items \<Rightarrow> Inr ((Dot, fst (quantifier cs)) # items))
      else if c \<in> set escapedChars then Inl Unsupported
      else
        (case parseBody (snd (quantifier cs)) of
           Inl err \<Rightarrow> Inl err
         | Inr items \<Rightarrow> Inr ((Lit c, fst (quantifier cs)) # items)))"
  by pat_completeness auto
termination
proof (relation "measure length")
  show "wf (measure length)" by simp
next
  fix c e :: char and cs rest :: string
  assume "cs = e # rest"
  then show "(snd (quantifier rest), c # cs) \<in> measure length"
    using length_quantifier [of rest] by simp
next
  fix c :: char and cs :: string
  show "(snd (quantifier cs), c # cs) \<in> measure length"
    using length_quantifier [of cs] by simp
next
  fix c :: char and cs :: string
  show "(snd (quantifier cs), c # cs) \<in> measure length"
    using length_quantifier [of cs] by simp
qed

text \<open>The dot matches every code unit but a line terminator (LF and CR below U+0100).\<close>

fun atomMatches :: "Atom \<Rightarrow> char \<Rightarrow> bool" where
  "atomMatches (Lit a) c = (a = c)"
| "atomMatches Dot c = (c \<noteq> CHR 0x0A \<and> c \<noteq> CHR 0x0D)"

text \<open>
  \<^verbatim>\<open>new RegExp('^' + body + '$').test(s)\<close>: the backtracking search of the runtime finds
  a match of the whole input exactly when one exists, whatever the order (greedy or lazy)
  in which it tries the repetitions.
\<close>

fun matchBody :: "RegExpBody \<Rightarrow> string \<Rightarrow> bool" where
  "matchBody [] s = (s = [])"
| "matchBody ((a, Once) # items) s =
     (case s of [] \<Rightarrow> False | c # cs \<Rightarrow> atomMatches a c \<and> matchBody items cs)"
| "matchBody ((a, ZeroOrOne) # items) s =
     (matchBody items s
      \<or> (case s of [] \<Rightarrow> False | c # cs \<Rightarrow> atomMatches a c \<and> matchBody items cs))"
| "matchBody ((a, ZeroOrMore) # items) s =
     (matchBody items s
      \<or> (case s of [] \<Rightarrow> False
          | c # cs \<Rightarrow> atomMatches a c \<and> matchBody ((a, ZeroOrMore) # items) cs))"

definition regexTest :: "string \<Rightarrow> string \<Rightarrow> RegExpError + bool" where
  "regexTest body s = (case parseBody body of Inl err \<Rightarrow> Inl err | Inr items \<Rightarrow> Inr (matchBody items s))"

section \<open>Filesystem rules (packages/policy/src/rules/filesystem.ts)\<close>

text \<open>\<^verbatim>\<open>pattern.replace(/[.+^${}()|[\]\\]/g, '\\$&')\<close>: a backslash before each listed character.\<close>

definition escapeSpecial :: "string \<Rightarrow> string" where
  "escapeSpecial pattern =
     concat (map (\<lambda>c. if c \<in> set escapedChars then [CHR 0x5C, c] else [c]) pattern)"

text \<open>\<^verbatim>\<open>.replace(/\*/g, '.*')\<close>\<close>

definition starToDotStar :: "string \<Rightarrow> string" where
  "starToDotStar s = concat (map (\<lambda>c. if c = CHR ''*'' then ''.*'' else [c]) s)"

definition matchesPattern :: "string \<Rightarrow> string \<Rightarrow> RegExpError + bool" where
  "matchesPattern path pattern =
     (let regexPattern = starToDotStar (escapeSpecial pattern)
      in regexTest regexPattern path)"

text \<open>
  \<^verbatim>\<open>patterns.some((pattern) => matchesPattern(path, pattern))\<close>: the patterns are tried in
  order, up to the first that matches; an exception of one of them ends the search.
\<close>

fun matchesAnyPath :: "string \<Rightarrow> string list \<Rightarrow> RegExpError + bool" where
  "matchesAnyPath path [] = Inr False"
| "matchesAnyPath path (pattern # patterns) =
     (case matchesPattern path pattern of
        Inl err \<Rightarrow> Inl err
      | Inr True \<Rightarrow> Inr True
      | Inr False \<Rightarrow> matchesAnyPath path patterns)"

definition evaluateFilesystemPolicy ::
  "FilesystemPolicy \<Rightarrow> string \<Rightarrow> bool \<Rightarrow> RegExpError + PolicyEvaluation" where
  "evaluateFilesystemPolicy p path isWrite =
     (if \<not> fs_enabled p then
        Inr (evaluation False False (Some ''Filesystem access is disabled'') None
               (Some ''filesystem.enabled''))
      else if isWrite \<and> readOnly p then
        Inr (evaluation False False (Some ''Filesystem is read-only'')
               (Some ''Use a policy that allows write access'') (Some ''filesystem.readOnly''))
      else
        (case (case blockedPaths p of None \<Rightarrow> Inr False | Some ps \<Rightarrow> matchesAnyPath path ps) of
           Inl err \<Rightarrow> Inl err
         | Inr True \<Rightarrow>
             Inr (evaluation False False
                    (Some (''Path '' @ dq @ path @ dq @ '' is blocked by policy'')) None
                    (Some ''filesystem.blockedPaths''))
         | Inr False \<Rightarrow>
             (case (if 0 < length (listOrEmpty (allowedPaths p))
                    then matchesAnyPath path (listOrEmpty (allowedPaths p)) else Inr True) of
                Inl err \<Rightarrow> Inl err
              | Inr False \<Rightarrow>
                  Inr (evaluation False False
                         (Some (''Path '' @ dq @ path @ dq @ '' is not in allowed paths'')) None
                         (Some ''filesystem.allowedPaths''))
              | Inr True \<Rightarrow> Inr (evaluation True False None None None))))"

section \<open>Operations and events (packages/protocol/src)\<close>

datatype Encoding = Utf8 | Base64

record FileEdit =
  oldContent :: string
  newContent :: string

text \<open>
  The tagged union \<^verbatim>\<open>Operation\<close>. Every variant starts with the optional correlation
  \<^verbatim>\<open>id\<close>; the other arguments are the variant's obj in the order of its interface:
  \<^verbatim>\<open>message{content}\<close>, \<^verbatim>\<open>createFile{path, content, encoding?, overwrite?}\<close>,
  \<^verbatim>\<open>readFile{path, encoding?}\<close>, \<^verbatim>\<open>editFile{path, edits}\<close>, \<^verbatim>\<open>deleteFile{path}\<close>,
  \<^verbatim>\<open>shell{command, cwd?, timeout?, env?}\<close>.
\<close>

datatype Operation =
    MessageOp "string option" string
  | CreateFileOp "string option" string string "Encoding option" "bool option"
  | ReadFileOp "string option" string "Encoding option"
  | EditFileOp "string option" string "FileEdit list"
  | DeleteFileOp "string option" string
  | ShellOp "string option" string "string option" "int option" "(string \<times> string) list option"

fun op_id :: "Operation \<Rightarrow> string option" where
  "op_id (MessageOp i _) = i"
| "op_id (CreateFileOp i _ _ _ _) = i"
| "op_id (ReadFileOp i _ _) = i"
| "op_id (EditFileOp i _ _) = i"
| "op_id (DeleteFileOp i _) = i"
| "op_id (ShellOp i _ _ _ _) = i"

fun op_type :: "Operation \<Rightarrow> string" where
  "op_type (MessageOp _ _) = ''message''"
| "op_type (CreateFileOp _ _ _ _ _) = ''createFile''"
| "op_type (ReadFileOp _ _ _) = ''readFile''"
| "op_type (EditFileOp _ _ _) = ''editFile''"
| "op_type (DeleteFileOp _ _) = ''deleteFile''"
| "op_type (ShellOp _ _ _ _ _) = ''shell''"

record Details =
  d_policy :: "string option"
  d_command :: "string option"
  d_path :: "string option"

text \<open>
  The events the executor and the run service build. Every variant starts with the
  \<^verbatim>\<open>timestamp\<close> and the \<^verbatim>\<open>operationId\<close>; the other arguments are the obj in the
  order in which the source writes them:
  \<^verbatim>\<open>message{success = true}\<close>,
  \<^verbatim>\<open>createFile{path, success, bytesWritten, error}\<close>,
  \<^verbatim>\<open>readFile{path, success, content, encoding, size, error}\<close>,
  \<^verbatim>\<open>editFile{path, success, editsApplied, error}\<close>,
  \<^verbatim>\<open>deleteFile{path, success, error}\<close>,
  \<^verbatim>\<open>shell{command, success, exitCode, stdout, stderr, durationMs, timedOut}\<close>,
  \<^verbatim>\<open>approvalRequired{operationType, reason, details}\<close>,
  \<^verbatim>\<open>policyDenied{operationType, reason, suggestion}\<close>.
\<close>

datatype Event =
    MessageEvent string "string option"
  | CreateFileEvent string "string option" string bool "int option" "string option"
  | ReadFileEvent string "string option" string bool "string option" "Encoding option"
      "int option" "string option"
  | EditFileEvent string "string option" string bool "int option" "string option"
  | DeleteFileEvent string "string option" string bool "string option"
  | ShellEvent string "string option" string bool int string string int bool
  | ApprovalRequiredEvent string "string option" string string Details
  | PolicyDeniedEvent string "string option" string string "string option"

fun event_type :: "Event \<Rightarrow> string" where
  "event_type (MessageEvent _ _) = ''message''"
| "event_type (CreateFileEvent _ _ _ _ _ _) = ''createFile''"
| "event_type (ReadFileEvent _ _ _ _ _ _ _ _) = ''readFile''"
| "event_type (EditFileEvent _ _ _ _ _ _) = ''editFile''"
| "event_type (DeleteFileEvent _ _ _ _ _) = ''deleteFile''"
| "event_type (ShellEvent _ _ _ _ _ _ _ _ _) = ''shell''"
| "event_type (ApprovalRequiredEvent _ _ _ _ _) = ''approvalRequired''"
| "event_type (PolicyDeniedEvent _ _ _ _ _) = ''policyDenied''"

section \<open>Policy engine (packages/policy/src/engine.ts)\<close>

text \<open>A number in a template string: the decimal digits of an integer.\<close>

fun showNat :: "nat \<Rightarrow> string" where
  "showNat n = (if n < 10 then [char_of (48 + n)] else showNat (n div 10) @ [char_of (48 + n mod 10)])"

declare showNat.simps [simp del]

definition showInt :: "int \<Rightarrow> string" where
  "showInt i = (if i < 0 then CHR ''-'' # showNat (nat (- i)) else showNat (nat i))"

definition evaluateFileSize :: "FilesystemPolicy \<Rightarrow> int \<Rightarrow> PolicyEvaluation" where
  "evaluateFileSize p sz =
     (if sz > maxFileSize p then
        evaluation False False
          (Some (''File size ('' @ showInt sz @ '' bytes) exceeds limit (''
                 @ showInt (maxFileSize p) @ '' bytes)''))
          None (Some ''filesystem.maxFileSize'')
      else evaluation True False None None None)"

definition evaluateCreateFile :: "Policy \<Rightarrow> string \<Rightarrow> string \<Rightarrow> RegExpError + PolicyEvaluation" where
  "evaluateCreateFile pol path content =
     (case evaluateFilesystemPolicy (filesystem pol) path True of
        Inl err \<Rightarrow> Inl err
      | Inr pathEval \<Rightarrow>
          if \<not> allowed pathEval then Inr pathEval
          else
            (let sizeEval = evaluateFileSize (filesystem pol) (int (length content))
             in if \<not> allowed sizeEval then Inr sizeEval
                else Inr (evaluation True False None None None)))"

text \<open>
  \<^verbatim>\<open>PolicyEngine.evaluate\<close>. The engine holds one \<^verbatim>\<open>Policy\<close>; an exception of the
  pattern compiler passes through it to the caller.
\<close>

fun evaluate :: "Policy \<Rightarrow> Operation \<Rightarrow> RegExpError + PolicyEvaluation" where
  "evaluate pol (MessageOp _ _) = Inr (evaluation True False None None None)"
| "evaluate pol (CreateFileOp _ path content _ _) = evaluateCreateFile pol path content"
| "evaluate pol (ReadFileOp _ path _) = evaluateFilesystemPolicy (filesystem pol) path False"
| "evaluate pol (EditFileOp _ path _) = evaluateFilesystemPolicy (filesystem pol) path True"
| "evaluate pol (DeleteFileOp _ path) = evaluateFilesystemPolicy (filesystem pol) path True"
| "evaluate pol (ShellOp _ command _ _ _) = Inr (evaluateShellPolicy (shell pol) command)"

section \<open>Sandbox interface (packages/sandbox/src/types.ts, sandbox.ts)\<close>

record FileResult =
  fr_success :: bool
  fr_path :: string
  fr_content :: "string option"
  fr_size :: "int option"
  fr_error :: "string option"

record EditResult = FileResult +
  editsApplied :: "int option"

record ShellResult =
  sr_success :: bool
  sr_command :: string
  exitCode :: int
  stdout :: string
  stderr :: string
  durationMs :: int
  timedOut :: bool

text \<open>
  The executor sees a sandbox through its five primitives. Each is a function of the
  state \<open>'w\<close> of everything outside the process (the host's file system, the container)
  that returns its result value and the new state; none of them throws.
\<close>

record 'w Sandbox =
  sb_createFile :: "string \<Rightarrow> string \<Rightarrow> bool option \<Rightarrow> Encoding option \<Rightarrow> 'w \<Rightarrow> FileResult \<times> 'w"
  sb_readFile :: "string \<Rightarrow> Encoding option \<Rightarrow> 'w \<Rightarrow> FileResult \<times> 'w"
  sb_editFile :: "string \<Rightarrow> FileEdit list \<Rightarrow> 'w \<Rightarrow> EditResult \<times> 'w"
  sb_deleteFile :: "string \<Rightarrow> 'w \<Rightarrow> FileResult \<times> 'w"
  sb_exec ::
    "string \<Rightarrow> string option \<Rightarrow> (string \<times> string) list option \<Rightarrow> int option \<Rightarrow> 'w
       \<Rightarrow> ShellResult \<times> 'w"

section \<open>Run executor (packages/core/src/run/run.executor.ts)\<close>

datatype RunStatus = running | completed | awaiting_approval | cancelled | error

record PendingApproval =
  pa_operationId :: string
  pa_operationType :: string
  pa_reason :: string
  pa_details :: Details

record ExecuteRunResult =
  events :: "Event list"
  status :: RunStatus
  pendingApproval :: "PendingApproval option"

text \<open>\<^verbatim>\<open>x || d\<close> on an optional string: the absent and the empty string are falsy.\<close>

definition orElse :: "string option \<Rightarrow> string \<Rightarrow> string" where
  "orElse x d = (case x of None \<Rightarrow> d | Some s \<Rightarrow> if s = [] then d else s)"

text \<open>
  \<^verbatim>\<open>executeOperation\<close>. \<open>now\<close> reads the wall clock of the state as an ISO-8601 string
  (\<^verbatim>\<open>new Date().toISOString()\<close>), before the primitive is called.
\<close>

fun executeOperation :: "('w \<Rightarrow> string) \<Rightarrow> Operation \<Rightarrow> 'w Sandbox \<Rightarrow> 'w \<Rightarrow> Event \<times> 'w" where
  "executeOperation now (MessageOp i _) sandbox w = (MessageEvent (now w) i, w)"
| "executeOperation now (CreateFileOp i path content encoding overwrite) sandbox w =
     (let (result, w') = sb_createFile sandbox path content overwrite encoding w
      in (CreateFileEvent (now w) i path (fr_success result) (fr_size result) (fr_error result), w'))"
| "executeOperation now (ReadFileOp i path encoding) sandbox w =
     (let (result, w') = sb_readFile sandbox path encoding w
      in (ReadFileEvent (now w) i path (fr_success result) (fr_content result) encoding
            (fr_size result) (fr_error result), w'))"
| "executeOperation now (EditFileOp i path edits) sandbox w =
     (let (result, w') = sb_editFile sandbox path edits w
      in (EditFileEvent (now w) i path (fr_success result) (editsApplied result)
            (fr_error result), w'))"
| "executeOperation now (DeleteFileOp i path) sandbox w =
     (let (result, w') = sb_deleteFile sandbox path w
      in (DeleteFileEvent (now w) i path (fr_success result) (fr_error result), w'))"
| "executeOperation now (ShellOp i command cwd timeout env) sandbox w =
     (let (result, w') = sb_exec sandbox command cwd env timeout w
      in (ShellEvent (now w) i command (sr_success result) (exitCode result) (stdout result)
            (stderr result) (durationMs result) (timedOut result), w'))"

text \<open>The \<^verbatim>\<open>details\<close> object of an approval request.\<close>

fun approvalDetails :: "Operation \<Rightarrow> string option \<Rightarrow> Details" where
  "approvalDetails (ShellOp _ command _ _ _) pol =
     \<lparr>d_policy = pol, d_command = Some command, d_path = None\<rparr>"
| "approvalDetails (CreateFileOp _ path _ _ _) pol =
     \<lparr>d_policy = pol, d_command = None, d_path = Some path\<rparr>"
| "approvalDetails (ReadFileOp _ path _) pol =
     \<lparr>d_policy = pol, d_command = None, d_path = Some path\<rparr>"
| "approvalDetails (EditFileOp _ path _) pol =
     \<lparr>d_policy = pol, d_command = None, d_path = Some path\<rparr>"
| "approvalDetails (DeleteFileOp _ path) pol =
     \<lparr>d_policy = pol, d_command = None, d_path = Some path\<rparr>"
| "approvalDetails (MessageOp _ _) pol =
     \<lparr>d_policy = pol, d_command = None, d_path = None\<rparr>"

text \<open>
  The loop of \<^verbatim>\<open>executeRun\<close>: the operations still to visit, the events pushed so far
  and the state. An exception of \<^verbatim>\<open>policyEngine.evaluate\<close> leaves the function; what the
  sandbox did before stays done, so the state is returned in both cases.
\<close>

fun executeRunLoop ::
  "('w \<Rightarrow> string) \<Rightarrow> 'w Sandbox \<Rightarrow> Policy \<Rightarrow> Operation list \<Rightarrow> Event list \<Rightarrow> 'w
     \<Rightarrow> (RegExpError + ExecuteRunResult) \<times> 'w" where
  "executeRunLoop now sandbox policyEngine [] evs w =
     (Inr \<lparr>events = evs, status = completed, pendingApproval = None\<rparr>, w)"
| "executeRunLoop now sandbox policyEngine (operation # rest) evs w =
     (case evaluate policyEngine operation of
        Inl err \<Rightarrow> (Inl err, w)
      | Inr policyResult \<Rightarrow>
          if \<not> allowed policyResult then
            executeRunLoop now sandbox policyEngine rest
              (evs @ [PolicyDeniedEvent (now w) (op_id operation) (op_type operation)
                        (orElse (reason policyResult) ''Operation denied by policy'')
                        (suggestion policyResult)]) w
          else if requiresApproval policyResult then
            (Inr \<lparr>events = evs @ [ApprovalRequiredEvent (now w) (Some (orElse (op_id operation) []))
                                  (op_type operation)
                                  (orElse (reason policyResult) ''Operation requires approval'')
                                  (approvalDetails operation (policy policyResult))],
                  status = awaiting_approval,
                  pendingApproval = Some
                    \<lparr>pa_operationId = orElse (op_id operation) [],
                     pa_operationType = op_type operation,
                     pa_reason = orElse (reason policyResult) ''Operation requires approval'',
                     pa_details = approvalDetails operation (policy policyResult)\<rparr>\<rparr>, w)
          else
            (let (event, w') = executeOperation now operation sandbox w
             in executeRunLoop now sandbox policyEngine rest (evs @ [event]) w'))"

definition executeRun ::
  "('w \<Rightarrow> string) \<Rightarrow> 'w Sandbox \<Rightarrow> Policy \<Rightarrow> Operation list \<Rightarrow> 'w
     \<Rightarrow> (RegExpError + ExecuteRunResult) \<times> 'w" where
  "executeRun now sandbox policyEngine ops w =
     executeRunLoop now sandbox policyEngine ops [] w"

section \<open>Run service (packages/core/src/run/run.service.ts)\<close>

record Run =
  run_id :: string
  spaceId :: string
  run_status :: RunStatus
  operations :: "Operation list"
  run_events :: "Event list"
  run_pendingApproval :: "PendingApproval option"
  startedAt :: string
  completedAt :: "string option"

datatype ApprovalDecision = approved | denied

record Approval =
  ap_operationId :: string
  ap_decision :: ApprovalDecision
  ap_reason :: "string option"

text \<open>
  The space service as the run service uses it: the two lookups of the in-memory registry.
\<close>

record 'w SpaceService =
  getSandbox :: "string \<Rightarrow> 'w Sandbox option"
  getPolicyEngine :: "string \<Rightarrow> Policy option"

text \<open>
  What the methods throw: the four \<^verbatim>\<open>Error\<close>s of the service, each with the identifier its
  message names, and an exception that came up from the policy engine.
\<close>

datatype RunError =
    RunNotFound string
  | NotAwaitingApproval string
  | SpaceNotInitialized string
  | OperationNotFound string
  | PolicyException RegExpError

text \<open>\<^verbatim>\<open>xs.findIndex(p)\<close>: the index of the first element that satisfies \<open>p\<close>, or \<open>-1\<close>.\<close>

fun findIndex :: "('a \<Rightarrow> bool) \<Rightarrow> 'a list \<Rightarrow> int" where
  "findIndex p [] = - 1"
| "findIndex p (x # xs) =
     (if p x then 0 else (let i = findIndex p xs in if i < 0 then - 1 else i + 1))"

text \<open>
  The table \<^verbatim>\<open>runs\<close> of the database is a map from run id to row. A method returns
  what it returns or throws, with the table and the outside state it leaves behind.
  \<^verbatim>\<open>create\<close> takes the fresh identifier that \<^verbatim>\<open>nanoid(12)\<close> returns as an argument.
\<close>

type_synonym 'w ServiceState = "(string \<rightharpoonup> Run) \<times> 'w"

definition create ::
  "'w SpaceService \<Rightarrow> ('w \<Rightarrow> string) \<Rightarrow> string \<Rightarrow> string \<Rightarrow> Operation list
     \<Rightarrow> 'w ServiceState \<Rightarrow> (RunError + Run \<times> ExecuteRunResult) \<times> 'w ServiceState" where
  "create spaceService now nanoid space ops st =
     (case (getSandbox spaceService space, getPolicyEngine spaceService space) of
        (Some sandbox, Some policyEngine) \<Rightarrow>
          (case executeRun now sandbox policyEngine ops (snd st) of
             (Inl err, w') \<Rightarrow> (Inl (PolicyException err), fst st, w')
           | (Inr result, w') \<Rightarrow>
               (let newRun =
                  \<lparr>run_id = ''run_'' @ nanoid, spaceId = space, run_status = status result,
                   operations = ops, run_events = events result,
                   run_pendingApproval = pendingApproval result,
                   startedAt = now (snd st),
                   completedAt = (if status result = completed then Some (now w') else None)\<rparr>
                in (Inr (newRun, result), (fst st)(run_id newRun \<mapsto> newRun), w')))
      | _ \<Rightarrow> (Inl (SpaceNotInitialized space), st))"

text \<open>
  \<^verbatim>\<open>resume\<close>. The new events are the denial event alone when the decision is
  \<^verbatim>\<open>denied\<close>, and otherwise the result of \<^verbatim>\<open>executeRun\<close> on
  \<^verbatim>\<open>operations.slice(pendingIndex)\<close>. The update leaves \<^verbatim>\<open>completedAt\<close> as it is
  when the new status is not \<^verbatim>\<open>completed\<close>.
\<close>

definition resume ::
  "'w SpaceService \<Rightarrow> ('w \<Rightarrow> string) \<Rightarrow> string \<Rightarrow> Approval
     \<Rightarrow> 'w ServiceState \<Rightarrow> (RunError + Run \<times> ExecuteRunResult) \<times> 'w ServiceState" where
  "resume spaceService now runId approval st =
     (case fst st runId of
        None \<Rightarrow> (Inl (RunNotFound runId), st)
      | Some run \<Rightarrow>
          if run_status run \<noteq> awaiting_approval then (Inl (NotAwaitingApproval runId), st)
          else
            (case (getSandbox spaceService (spaceId run), getPolicyEngine spaceService (spaceId run)) of
               (Some sandbox, Some policyEngine) \<Rightarrow>
                 (let pendingIndex =
                        findIndex (\<lambda>operation. op_id operation = Some (ap_operationId approval))
                          (operations run)
                  in if pendingIndex = - 1 then (Inl (OperationNotFound (ap_operationId approval)), st)
                     else
                       (case (if ap_decision approval = denied then
                                (Inr \<lparr>events =
                                       [PolicyDeniedEvent (now (snd st)) (Some (ap_operationId approval))
                                          (op_type (operations run ! nat pendingIndex))
                                          (orElse (ap_reason approval) ''Approval denied by user'')
                                          None],
                                      status = completed, pendingApproval = None\<rparr>, snd st)
                              else
                                executeRun now sandbox policyEngine
                                  (drop (nat pendingIndex) (operations run)) (snd st)) of
                          (Inl err, w') \<Rightarrow> (Inl (PolicyException err), fst st, w')
                        | (Inr result, w') \<Rightarrow>
                            (let updatedRun = run
                                   \<lparr>run_status := status result,
                                    run_events := run_events run @ events result,
                                    run_pendingApproval := pendingApproval result,
                                    completedAt :=
                                      (if status result = completed then Some (now w')
                                       else completedAt run)\<rparr>
                             in (Inr (updatedRun,
                                      \<lparr>events = events result, status = status result,
                                       pendingApproval = None\<rparr>),
                                 (fst st)(runId \<mapsto> updatedRun), w'))))
             | _ \<Rightarrow> (Inl (SpaceNotInitialized (spaceId run)), st)))"

section \<open>Editing a file (packages/sandbox/src/filesystem/operations.ts)\<close>

text \<open>
  \<^verbatim>\<open>content.replace(old, new)\<close> with two strings replaces the first occurrence of \<open>old\<close>,
  and reads \<open>new\<close> as a replacement template: \<^verbatim>\<open>$$\<close> stands for a dollar sign,
  \<^verbatim>\<open>$&\<close> for the matched text, \<^verbatim>\<open>$`\<close> for the text before the match and \<^verbatim>\<open>$'\<close> for
  the text after it. A string pattern has no capture groups, so every other use of the
  dollar sign stands for itself.
\<close>

fun getSubstitution :: "string \<Rightarrow> string \<Rightarrow> string \<Rightarrow> string \<Rightarrow> string" where
  "getSubstitution matched before after (c # d # rest) =
     (if c = CHR ''$'' \<and> d = CHR ''$'' then CHR ''$'' # getSubstitution matched before after rest
      else if c = CHR ''$'' \<and> d = CHR ''&'' then matched @ getSubstitution matched before after rest
      else if c = CHR ''$'' \<and> d = CHR 0x60 then before @ getSubstitution matched before after rest
      else if c = CHR ''$'' \<and> d = CHR 0x27 then after @ getSubstitution matched before after rest
      else c # getSubstitution matched before after (d # rest))"
| "getSubstitution matched before after [c] = [c]"
| "getSubstitution matched before after [] = []"

definition replace :: "string \<Rightarrow> string \<Rightarrow> string \<Rightarrow> string" where
  "replace content old new =
     (let position = indexOf content old
      in if position < 0 then content
         else (let before = take (nat position) content;
                   after = drop (nat position + length old) content
               in before @ getSubstitution old before after new @ after))"

text \<open>\<^verbatim>\<open>Buffer.byteLength(s)\<close>: the length of the UTF-8 encoding; a code unit from U+0080 to
  U+00FF takes two bytes.\<close>

definition byteLength :: "string \<Rightarrow> int" where
  "byteLength s = int (length s) + int (length (filter (\<lambda>c. (128::nat) \<le> of_char c) s))"

text \<open>
  The functions of the node library that \<^verbatim>\<open>editFile\<close> calls, over a state \<open>'fs\<close> of the
  host's file system. A function that may throw returns the message of the error on the
  left. A failed write may still have changed the file system, so it returns the new
  state on both sides.
\<close>

record 'fs NodeFs =
  pathJoin :: "string list \<Rightarrow> string"
  existsSync :: "'fs \<Rightarrow> string \<Rightarrow> bool"
  readFileUtf8 :: "'fs \<Rightarrow> string \<Rightarrow> string + string"
  writeFileUtf8 :: "'fs \<Rightarrow> string \<Rightarrow> string \<Rightarrow> string option \<times> 'fs"

definition getFullPath :: "'fs NodeFs \<Rightarrow> string \<Rightarrow> string \<Rightarrow> string" where
  "getFullPath node workspacePath relativePath = pathJoin node [workspacePath, relativePath]"

definition isPathInWorkspace :: "'fs NodeFs \<Rightarrow> string \<Rightarrow> string \<Rightarrow> bool" where
  "isPathInWorkspace node workspacePath targetPath =
     (let resolvedWorkspace = pathJoin node [workspacePath];
          resolvedTarget = pathJoin node [workspacePath, targetPath]
      in startsWith resolvedTarget resolvedWorkspace)"

definition failure :: "string \<Rightarrow> string \<Rightarrow> EditResult" where
  "failure relativePath msg =
     \<lparr>fr_success = False, fr_path = relativePath, fr_content = None, fr_size = None,
      fr_error = Some msg, editsApplied = None\<rparr>"

text \<open>
  The loop over the edits: the buffer and the counter so far. It leaves with the probe
  that does not occur in the buffer, or ends with the final buffer and the count.
\<close>

fun applyEdits :: "string \<Rightarrow> int \<Rightarrow> FileEdit list \<Rightarrow> string + (string \<times> int)" where
  "applyEdits content n [] = Inr (content, n)"
| "applyEdits content n (edit # edits) =
     (if \<not> str_includes content (oldContent edit) then Inl (oldContent edit)
      else applyEdits (replace content (oldContent edit) (newContent edit)) (n + 1) edits)"

definition editFile ::
  "'fs NodeFs \<Rightarrow> string \<Rightarrow> string \<Rightarrow> FileEdit list \<Rightarrow> 'fs \<Rightarrow> EditResult \<times> 'fs" where
  "editFile node workspacePath relativePath edits fs =
     (if \<not> isPathInWorkspace node workspacePath relativePath then
        (failure relativePath ''Path is outside workspace'', fs)
      else
        (let fullPath = getFullPath node workspacePath relativePath
         in if \<not> existsSync node fs fullPath then (failure relativePath ''File not found'', fs)
            else
              (case readFileUtf8 node fs fullPath of
                 Inl msg \<Rightarrow> (failure relativePath msg, fs)
               | Inr content \<Rightarrow>
                   (case applyEdits content 0 edits of
                      Inl probe \<Rightarrow>
                        (failure relativePath
                           (''Could not find content to replace: '' @ dq @ substring probe 0 50
                            @ ''...'' @ dq), fs)
                    | Inr (final, n) \<Rightarrow>
                        (case writeFileUtf8 node fs fullPath final of
                           (Some msg, fs') \<Rightarrow> (failure relativePath msg, fs')
                         | (None, fs') \<Rightarrow>
                             (\<lparr>fr_success = True, fr_path = relativePath, fr_content = None,
                               fr_size = Some (byteLength final), fr_error = None,
                               editsApplied = Some n\<rparr>, fs'))))))"

section \<open>Validation of untrusted input (packages/protocol/src/operations/schemas.ts)\<close>

text \<open>
  The input of a validator is a value parsed from JSON. An object is the list of its
  properties; a number is a rational. A property that is absent reads as \<open>None\<close>
  (\<^verbatim>\<open>undefined\<close>), which is not the value \<open>JNull\<close>.
\<close>

datatype Json =
    JNull
  | JBool bool
  | JNum rat
  | JStr string
  | JArr "Json list"
  | JObj "(string \<times> Json) list"

text \<open>
  The schema library reports a failure as a list of issues, each with a code and the
  path of the offending value; a refinement of the source reports the code \<open>custom\<close> with
  the message the source gives it. \<^verbatim>\<open>safeParse\<close> succeeds exactly when no issue was
  reported; then it returns the parsed value, with defaults filled in and unknown
  properties dropped.
\<close>

datatype Key = Field string | Index nat

datatype IssueCode =
    invalid_type
  | invalid_literal
  | invalid_union_discriminator
  | invalid_enum_value
  | too_small
  | too_big
  | custom string

record Issue =
  i_code :: IssueCode
  i_path :: "Key list"

definition issue :: "IssueCode \<Rightarrow> Key list \<Rightarrow> Issue" where
  "issue c p = \<lparr>i_code = c, i_path = p\<rparr>"

text \<open>Two parts of one value are both parsed, and the issues of both are reported.\<close>

fun both :: "Issue list + 'a \<Rightarrow> Issue list + 'b \<Rightarrow> Issue list + ('a \<times> 'b)" where
  "both (Inl e) (Inl f) = Inl (e @ f)"
| "both (Inl e) (Inr _) = Inl e"
| "both (Inr _) (Inl f) = Inl f"
| "both (Inr a) (Inr b) = Inr (a, b)"

text \<open>What a schema builds from the parsed parts, when there is no issue.\<close>

fun mapResult :: "('a \<Rightarrow> 'b) \<Rightarrow> Issue list + 'a \<Rightarrow> Issue list + 'b" where
  "mapResult f (Inl e) = Inl e"
| "mapResult f (Inr x) = Inr (f x)"

fun collect :: "(Issue list + 'a) list \<Rightarrow> Issue list + 'a list" where
  "collect [] = Inr []"
| "collect (r # rs) = mapResult (\<lambda>(x, xs). x # xs) (both r (collect rs))"

fun getProp :: "(string \<times> Json) list \<Rightarrow> string \<Rightarrow> Json option" where
  "getProp obj k = map_of obj k"

text \<open>\<^verbatim>\<open>z.string()\<close> and \<^verbatim>\<open>z.string().max(n)\<close>\<close>

fun zString :: "nat option \<Rightarrow> Json option \<Rightarrow> Key list \<Rightarrow> Issue list + string" where
  "zString None (Some (JStr s)) p = Inr s"
| "zString (Some n) (Some (JStr s)) p = (if length s > n then Inl [issue too_big p] else Inr s)"
| "zString _ _ p = Inl [issue invalid_type p]"

text \<open>\<^verbatim>\<open>schema.optional()\<close>: the absent value is accepted as it is.\<close>

fun optional ::
  "(Json option \<Rightarrow> Key list \<Rightarrow> Issue list + 'a) \<Rightarrow> Json option \<Rightarrow> Key list \<Rightarrow> Issue list + 'a option" where
  "optional schema None p = Inr None"
| "optional schema (Some v) p = mapResult Some (schema (Some v) p)"

text \<open>\<^verbatim>\<open>schema.optional().default(d)\<close>\<close>

fun withDefault ::
  "(Json option \<Rightarrow> Key list \<Rightarrow> Issue list + 'a) \<Rightarrow> 'a \<Rightarrow> Json option \<Rightarrow> Key list \<Rightarrow> Issue list + 'a" where
  "withDefault schema d None p = Inr d"
| "withDefault schema d (Some v) p = schema (Some v) p"

fun zBoolean :: "Json option \<Rightarrow> Key list \<Rightarrow> Issue list + bool" where
  "zBoolean (Some (JBool b)) p = Inr b"
| "zBoolean _ p = Inl [issue invalid_type p]"

definition MAX_PATH_LENGTH :: nat where "MAX_PATH_LENGTH = 255"
definition MAX_COMMAND_LENGTH :: nat where "MAX_COMMAND_LENGTH = 4096"
definition MAX_CONTENT_LENGTH :: nat where "MAX_CONTENT_LENGTH = 10 * 1024 * 1024"
definition MAX_MESSAGE_LENGTH :: nat where "MAX_MESSAGE_LENGTH = 100000"
definition MIN_TIMEOUT :: rat where "MIN_TIMEOUT = 1000"
definition MAX_TIMEOUT :: rat where "MAX_TIMEOUT = 3600000"

text \<open>
  \<^verbatim>\<open>pathSchema\<close>: a string of at most 255 code units with three refinements. A check
  that fails does not stop the ones after it.
\<close>

fun pathSchema :: "Json option \<Rightarrow> Key list \<Rightarrow> Issue list + string" where
  "pathSchema (Some (JStr path)) p =
     (let issues =
        (if length path > MAX_PATH_LENGTH then [issue too_big p] else [])
        @ (if startsWith path ''/'' then [issue (custom ''Path must be relative (no leading /)'') p]
           else [])
        @ (if str_includes path ''..''
           then [issue (custom ''Path cannot contain parent directory traversal (..)'') p] else [])
        @ (if str_includes path [CHR 0x00]
           then [issue (custom ''Path cannot contain null bytes'') p] else [])
      in if issues = [] then Inr path else Inl issues)"
| "pathSchema _ p = Inl [issue invalid_type p]"

text \<open>\<^verbatim>\<open>z.enum(['utf-8', 'base64'])\<close>\<close>

fun encodingEnum :: "Json option \<Rightarrow> Key list \<Rightarrow> Issue list + Encoding" where
  "encodingEnum (Some (JStr s)) p =
     (if s = ''utf-8'' then Inr Utf8 else if s = ''base64'' then Inr Base64
      else Inl [issue invalid_enum_value p])"
| "encodingEnum _ p = Inl [issue invalid_type p]"

definition encodingSchema :: "Json option \<Rightarrow> Key list \<Rightarrow> Issue list + Encoding" where
  "encodingSchema = withDefault encodingEnum Utf8"

text \<open>\<^verbatim>\<open>Number.isInteger\<close>\<close>

definition isInteger :: "rat \<Rightarrow> bool" where
  "isInteger x = (of_int \<lfloor>x\<rfloor> = x)"

text \<open>\<^verbatim>\<open>z.number().int().min(MIN_TIMEOUT).max(MAX_TIMEOUT)\<close>\<close>

fun timeoutSchema :: "Json option \<Rightarrow> Key list \<Rightarrow> Issue list + int" where
  "timeoutSchema (Some (JNum x)) p =
     (let issues =
        (if \<not> isInteger x then [issue invalid_type p] else [])
        @ (if x < MIN_TIMEOUT then [issue too_small p] else [])
        @ (if x > MAX_TIMEOUT then [issue too_big p] else [])
      in if issues = [] then Inr \<lfloor>x\<rfloor> else Inl issues)"
| "timeoutSchema _ p = Inl [issue invalid_type p]"

text \<open>\<^verbatim>\<open>z.record(z.string(), z.string())\<close>\<close>

fun envSchema :: "Json option \<Rightarrow> Key list \<Rightarrow> Issue list + (string \<times> string) list" where
  "envSchema (Some (JObj obj)) p =
     collect (map (\<lambda>(k, v). mapResult (\<lambda>s. (k, s)) (zString None (Some v) (p @ [Field k]))) obj)"
| "envSchema _ p = Inl [issue invalid_type p]"

text \<open>
  \<^verbatim>\<open>z.array(schema)\<close> and \<^verbatim>\<open>z.array(schema).min(n)\<close>: the length is checked first, then
  each element at its index.
\<close>

fun zArray ::
  "nat \<Rightarrow> (Json \<Rightarrow> Key list \<Rightarrow> Issue list + 'a) \<Rightarrow> Json option \<Rightarrow> Key list \<Rightarrow> Issue list + 'a list" where
  "zArray n schema (Some (JArr xs)) p =
     mapResult snd
       (both (if length xs < n then Inl [issue too_small p] else Inr ())
          (collect (map (\<lambda>(i, x). schema x (p @ [Index i])) (enumerate 0 xs))))"
| "zArray n schema _ p = Inl [issue invalid_type p]"

fun fileEditSchema :: "Json \<Rightarrow> Key list \<Rightarrow> Issue list + FileEdit" where
  "fileEditSchema (JObj obj) p =
     (mapResult (\<lambda>(old, new). \<lparr>oldContent = old, newContent = new\<rparr>)
        (both (zString None (getProp obj ''oldContent'') (p @ [Field ''oldContent'']))
                (zString None (getProp obj ''newContent'') (p @ [Field ''newContent'']))))"
| "fileEditSchema _ p = Inl [issue invalid_type p]"

text \<open>The six object schemas, each parsing the properties in the order of its shape.\<close>

definition idSchema :: "(string \<times> Json) list \<Rightarrow> Key list \<Rightarrow> Issue list + string option" where
  "idSchema obj p = optional (zString None) (getProp obj ''id'') (p @ [Field ''id''])"

definition messageOperationSchema :: "(string \<times> Json) list \<Rightarrow> Key list \<Rightarrow> Issue list + Operation" where
  "messageOperationSchema obj p =
     (mapResult (\<lambda>(i, content). MessageOp i content)
        (both (idSchema obj p)
                (zString (Some MAX_MESSAGE_LENGTH) (getProp obj ''content'') (p @ [Field ''content'']))))"

definition createFileOperationSchema :: "(string \<times> Json) list \<Rightarrow> Key list \<Rightarrow> Issue list + Operation" where
  "createFileOperationSchema obj p =
     (mapResult (\<lambda>(i, path, content, encoding, overwrite). CreateFileOp i path content (Some encoding) (Some overwrite))
        (both (idSchema obj p)
            (both (pathSchema (getProp obj ''path'') (p @ [Field ''path'']))
               (both (zString (Some MAX_CONTENT_LENGTH) (getProp obj ''content'') (p @ [Field ''content'']))
                  (both (encodingSchema (getProp obj ''encoding'') (p @ [Field ''encoding'']))
                     (withDefault zBoolean False (getProp obj ''overwrite'') (p @ [Field ''overwrite''])))))))"

definition readFileOperationSchema :: "(string \<times> Json) list \<Rightarrow> Key list \<Rightarrow> Issue list + Operation" where
  "readFileOperationSchema obj p =
     (mapResult (\<lambda>(i, path, encoding). ReadFileOp i path (Some encoding))
        (both (idSchema obj p)
            (both (pathSchema (getProp obj ''path'') (p @ [Field ''path'']))
               (encodingSchema (getProp obj ''encoding'') (p @ [Field ''encoding''])))))"

definition editFileOperationSchema :: "(string \<times> Json) list \<Rightarrow> Key list \<Rightarrow> Issue list + Operation" where
  "editFileOperationSchema obj p =
     (mapResult (\<lambda>(i, path, edits). EditFileOp i path edits)
        (both (idSchema obj p)
            (both (pathSchema (getProp obj ''path'') (p @ [Field ''path'']))
               (zArray 1 fileEditSchema (getProp obj ''edits'') (p @ [Field ''edits''])))))"

definition deleteFileOperationSchema :: "(string \<times> Json) list \<Rightarrow> Key list \<Rightarrow> Issue list + Operation" where
  "deleteFileOperationSchema obj p =
     (mapResult (\<lambda>(i, path). DeleteFileOp i path)
        (both (idSchema obj p) (pathSchema (getProp obj ''path'') (p @ [Field ''path'']))))"

definition shellOperationSchema :: "(string \<times> Json) list \<Rightarrow> Key list \<Rightarrow> Issue list + Operation" where
  "shellOperationSchema obj p =
     (mapResult (\<lambda>(i, command, cwd, timeout, env). ShellOp i command cwd timeout env)
        (both (idSchema obj p)
            (both (zString (Some MAX_COMMAND_LENGTH) (getProp obj ''command'') (p @ [Field ''command'']))
               (both (optional pathSchema (getProp obj ''cwd'') (p @ [Field ''cwd'']))
                  (both (optional timeoutSchema (getProp obj ''timeout'') (p @ [Field ''timeout'']))
                     (optional envSchema (getProp obj ''env'') (p @ [Field ''env''])))))))"

text \<open>
  \<^verbatim>\<open>z.discriminatedUnion('type', [...])\<close>: the value must be an object, and its
  \<^verbatim>\<open>type\<close> selects the schema.
\<close>

fun operationSchema :: "Json \<Rightarrow> Key list \<Rightarrow> Issue list + Operation" where
  "operationSchema (JObj obj) p =
     (case getProp obj ''type'' of
        Some (JStr t) \<Rightarrow>
          if t = ''message'' then messageOperationSchema obj p
          else if t = ''createFile'' then createFileOperationSchema obj p
          else if t = ''readFile'' then readFileOperationSchema obj p
          else if t = ''editFile'' then editFileOperationSchema obj p
          else if t = ''deleteFile'' then deleteFileOperationSchema obj p
          else if t = ''shell'' then shellOperationSchema obj p
          else Inl [issue invalid_union_discriminator (p @ [Field ''type''])]
      | _ \<Rightarrow> Inl [issue invalid_union_discriminator (p @ [Field ''type''])])"
| "operationSchema _ p = Inl [issue invalid_type p]"

text \<open>\<^verbatim>\<open>z.literal('1.0')\<close>\<close>

fun protocolVersionLiteral :: "Json option \<Rightarrow> Key list \<Rightarrow> Issue list + string" where
  "protocolVersionLiteral (Some (JStr s)) p =
     (if s = ''1.0'' then Inr s else Inl [issue invalid_literal p])"
| "protocolVersionLiteral _ p = Inl [issue invalid_literal p]"

record OperationsMessage =
  om_protocolVersion :: string
  om_operations :: "Operation list"

fun operationsMessageSchema :: "Json \<Rightarrow> Issue list + OperationsMessage" where
  "operationsMessageSchema (JObj obj) =
     (mapResult (\<lambda>(v, ops). \<lparr>om_protocolVersion = v, om_operations = ops\<rparr>)
        (both (protocolVersionLiteral (getProp obj ''protocolVersion'') [Field ''protocolVersion''])
                (zArray 0 operationSchema (getProp obj ''operations'') [Field ''operations''])))"
| "operationsMessageSchema _ = Inl [issue invalid_type []]"

text \<open>packages/protocol/src/validation/validator.ts\<close>

definition validateOperation :: "Json \<Rightarrow> Issue list + Operation" where
  "validateOperation input = operationSchema input []"

definition validateOperationsMessage :: "Json \<Rightarrow> Issue list + OperationsMessage" where
  "validateOperationsMessage input = operationsMessageSchema input"

section \<open>The standard preset (packages/policy/src/presets/standard.ts)\<close>

definition standardPolicy :: Policy where
  "standardPolicy =
     \<lparr>policy_name = ''standard'',
      description = Some ''Balanced security and functionality'',
      filesystem =
        \<lparr>fs_enabled = True, readOnly = False, maxFileSize = 10 * 1024 * 1024,
         allowedPaths = None,
         blockedPaths = Some [''.*'', ''*.env'', ''*.key'', ''*.pem'', ''node_modules'']\<rparr>,
      shell =
        \<lparr>sh_enabled = True,
         allowedCommands = Some [''bun'', ''node'', ''npm'', ''npx'', ''cat'', ''echo'', ''ls'',
           ''pwd'', ''head'', ''tail'', ''grep'', ''find'', ''wc''],
         blockedPatterns = Some [''rm -rf /'', ''rm -rf ~'', ''sudo'', ''chmod'', ''chown'', ''curl'',
           ''wget'', ''ssh''],
         sh_timeout = 30000,
         approvalRequired = Some [''rm -rf'', ''rm -r'']\<rparr>,
      network = \<lparr>net_enabled = False, allowedDomains = None, blockedDomains = None\<rparr>\<rparr>"

section \<open>A sandbox that records its calls\<close>

text \<open>
  To run the executor and the run service on concrete inputs, the outside state is taken
  to be the list of the primitive calls made so far: each primitive appends its call and
  reports success. The clock of this state always reads the same instant.
\<close>

datatype Call =
    CreateFileCall string
  | ReadFileCall string
  | EditFileCall string
  | DeleteFileCall string
  | ExecCall string

definition fileOk :: "string \<Rightarrow> FileResult" where
  "fileOk path =
     \<lparr>fr_success = True, fr_path = path, fr_content = None, fr_size = None, fr_error = None\<rparr>"

definition recordingSandbox :: "Call list Sandbox" where
  "recordingSandbox =
     \<lparr>sb_createFile = (\<lambda>path content overwrite encoding w. (fileOk path, w @ [CreateFileCall path])),
      sb_readFile = (\<lambda>path encoding w. (fileOk path, w @ [ReadFileCall path])),
      sb_editFile = (\<lambda>path edits w.
        (\<lparr>fr_success = True, fr_path = path, fr_content = None, fr_size = None, fr_error = None,
          editsApplied = Some (int (length edits))\<rparr>, w @ [EditFileCall path])),
      sb_deleteFile = (\<lambda>path w. (fileOk path, w @ [DeleteFileCall path])),
      sb_exec = (\<lambda>command cwd env timeout w.
        (\<lparr>sr_success = True, sr_command = command, exitCode = 0, stdout = [], stderr = [],
          durationMs = 0, timedOut = False\<rparr>, w @ [ExecCall command]))\<rparr>"

definition fixedClock :: "Call list \<Rightarrow> string" where
  "fixedClock w = ''2025-01-15T10:40:00.000Z''"

text \<open>A registry with the one space \<open>spc_1\<close>, under the standard preset.\<close>

definition oneSpace :: "Call list SpaceService" where
  "oneSpace =
     \<lparr>getSandbox = (\<lambda>space. if space = ''spc_1'' then Some recordingSandbox else None),
      getPolicyEngine = (\<lambda>space. if space = ''spc_1'' then Some standardPolicy else None)\<rparr>"

text \<open>
  A shell operation that the standard preset gates by approval: its base command
  \<open>echo\<close> is allowed, no blocked pattern occurs in it, and \<open>rm -rf\<close> does. The state of
  the service after \<open>create\<close> ran a batch in the space \<open>spc_1\<close>, starting from an empty
  table and an empty log, with the identifier \<open>A\<close>.
\<close>

definition gatedShell :: Operation where
  "gatedShell = ShellOp (Some ''op1'') ''echo rm -rf tmp'' None None None"

definition afterCreate :: "Operation list \<Rightarrow> Call list ServiceState" where
  "afterCreate ops = snd (create oneSpace fixedClock ''A'' ''spc_1'' ops (Map.empty, []))"

text \<open>
  The two decisions a resume request can carry, and a batch whose gated operation has no
  id.
\<close>

definition approve :: "string \<Rightarrow> Approval" where
  "approve i = \<lparr>ap_operationId = i, ap_decision = approved, ap_reason = None\<rparr>"

definition deny :: "string \<Rightarrow> string option \<Rightarrow> Approval" where
  "deny i r = \<lparr>ap_operationId = i, ap_decision = denied, ap_reason = r\<rparr>"

definition noIdBatch :: "Operation list" where
  "noIdBatch = [MessageOp (Some ''m1'') ''hi'', ShellOp None ''echo rm -rf tmp'' None None None]"

section \<open>A file system in memory\<close>

text \<open>
  To run \<open>editFile\<close> on concrete inputs: the files are a map from full path to content,
  paths are joined with \<open>/\<close>, and no operation fails but the read of a missing file.
\<close>

definition memFs :: "(string \<rightharpoonup> string) NodeFs" where
  "memFs =
     \<lparr>pathJoin = join ''/'',
      existsSync = (\<lambda>fs p. fs p \<noteq> None),
      readFileUtf8 = (\<lambda>fs p. case fs p of None \<Rightarrow> Inl ''ENOENT: no such file or directory''
                                | Some content \<Rightarrow> Inr content),
      writeFileUtf8 = (\<lambda>fs p content. (None, fs(p \<mapsto> content)))\<rparr>"

section \<open>The decisions of the specification\<close>

text \<open>
  The specification speaks of three decisions. The executor reads them off a
  \<^verbatim>\<open>PolicyEvaluation\<close> in this order: not \<^verbatim>\<open>allowed\<close> is a denial (with reason, suggestion
  and policy tag), then \<^verbatim>\<open>requiresApproval\<close> is an approval request (with reason and
  policy tag), and anything else is permission.
\<close>

datatype Decision =
    Allow
  | Deny "string option" "string option" "string option"
  | RequireApproval "string option" "string option"

definition decisionOf :: "PolicyEvaluation \<Rightarrow> Decision" where
  "decisionOf e =
     (if \<not> allowed e then Deny (reason e) (suggestion e) (policy e)
      else if requiresApproval e then RequireApproval (reason e) (policy e)
      else Allow)"

text \<open>
  The base token in the words of the specification: the trimmed command up to its first
  space. A pattern of an optional list occurs in a command when the list is present and
  one of its entries is a contiguous part of the command.
\<close>

definition baseToken :: "string \<Rightarrow> string" where
  "baseToken command = takeWhile (\<lambda>c. c \<noteq> CHR '' '') (trim command)"

definition occursIn :: "string list option \<Rightarrow> string \<Rightarrow> bool" where
  "occursIn patterns command = (\<exists>pattern \<in> set (listOrEmpty patterns). sublist pattern command)"

section \<open>The executor in the words of the specification\<close>

text \<open>
  An event answers an operation when it has the operation's own type or is a
  \<^verbatim>\<open>policyDenied\<close> event.
\<close>

definition answers :: "Operation \<Rightarrow> Event \<Rightarrow> bool" where
  "answers operation ev = (event_type ev = op_type operation \<or> event_type ev = ''policyDenied'')"

text \<open>
  The decision of the policy engine on an operation, if it returns one. The loop goes on
  to the next operation after \<open>Allow\<close> and after \<open>Deny\<close>; an approval request and an
  exception end it. \<open>dispatchAll\<close> hands a list of operations to the sandbox, one after the
  other.
\<close>

definition decided :: "Policy \<Rightarrow> Operation \<Rightarrow> Decision option" where
  "decided pol operation =
     (case evaluate pol operation of Inl _ \<Rightarrow> None | Inr e \<Rightarrow> Some (decisionOf e))"

definition continues :: "Policy \<Rightarrow> Operation \<Rightarrow> bool" where
  "continues pol operation =
     (case decided pol operation of
        Some Allow \<Rightarrow> True | Some (Deny _ _ _) \<Rightarrow> True | _ \<Rightarrow> False)"

definition dispatchAll :: "('w \<Rightarrow> string) \<Rightarrow> 'w Sandbox \<Rightarrow> Operation list \<Rightarrow> 'w \<Rightarrow> 'w" where
  "dispatchAll now sandbox ops w =
     fold (\<lambda>operation v. snd (executeOperation now operation sandbox v)) ops w"

section \<open>Validation in the words of the specification\<close>

text \<open>
  The property \<open>k\<close> of an untrusted value, if the value is an object that has it. A path
  is bad when it starts with the separator \<open>/\<close>, contains \<open>..\<close>, contains a NUL, or is longer
  than 255.
\<close>

definition member :: "Json \<Rightarrow> string \<Rightarrow> Json option" where
  "member v k = (case v of JObj obj \<Rightarrow> getProp obj k | _ \<Rightarrow> None)"

definition badPath :: "string \<Rightarrow> bool" where
  "badPath path =
     (prefix ''/'' path \<or> sublist ''..'' path \<or> CHR 0x00 \<in> set path \<or> 255 < length path)"

section \<open>The regular expressions that are built\<close>

text \<open>
  What the two replacements of \<open>matchesPattern\<close> make of one character of the pattern.
\<close>

definition regexToken :: "char \<Rightarrow> string" where
  "regexToken c =
     (if c \<in> set escapedChars then [CHR 0x5C, c] else if c = CHR ''*'' then ''.*'' else [c])"

section \<open>Properties of the string functions\<close>

lemma startsWith_prefix: "startsWith s p \<longleftrightarrow> prefix p s"
  unfolding startsWith_def
  by (metis take_is_prefix prefix_def append_eq_conv_conj)

lemma str_includes_sublist: "str_includes s p \<longleftrightarrow> sublist p s"
  by (induction s) (auto simp: startsWith_prefix sublist_Cons_right)

lemma indexOf_char_none: "c \<notin> set s \<Longrightarrow> indexOf s [c] = - 1"
  by (induction s) (auto simp: startsWith_def Let_def)

lemma indexOf_char_takeWhile:
  "c \<in> set s \<Longrightarrow> indexOf s [c] = int (length (takeWhile (\<lambda>x. x \<noteq> c) s))"
  by (induction s) (auto simp: startsWith_def Let_def indexOf_char_none)

section \<open>Shell policy\<close>

lemma shell_standard: "shell standardPolicy = \<lparr>sh_enabled = True,
         allowedCommands = Some [''bun'', ''node'', ''npm'', ''npx'', ''cat'', ''echo'', ''ls'',
           ''pwd'', ''head'', ''tail'', ''grep'', ''find'', ''wc''],
         blockedPatterns = Some [''rm -rf /'', ''rm -rf ~'', ''sudo'', ''chmod'', ''chown'', ''curl'',
           ''wget'', ''ssh''],
         sh_timeout = 30000,
         approvalRequired = Some [''rm -rf'', ''rm -r'']\<rparr>"
  by (simp add: standardPolicy_def)

lemma presentAndMatches_occursIn: "presentAndMatches ps command \<longleftrightarrow> occursIn ps command"
  by (cases ps)
     (auto simp: presentAndMatches_def occursIn_def listOrEmpty_def matchesAnyPattern_def
        list_ex_iff str_includes_sublist)

lemma extractBaseCommand_baseToken: "extractBaseCommand command = baseToken command"
proof (cases "CHR '' '' \<in> set (trim command)")
  case True
  then have i: "indexOf (trim command) '' ''
      = int (length (takeWhile (\<lambda>x. x \<noteq> CHR '' '') (trim command)))"
    by (rule indexOf_char_takeWhile)
  have "extractBaseCommand command
      = take (length (takeWhile (\<lambda>x. x \<noteq> CHR '' '') (trim command))) (trim command)"
    by (simp add: extractBaseCommand_def Let_def substring_def i)
  also have "\<dots> = takeWhile (\<lambda>x. x \<noteq> CHR '' '') (trim command)"
    by (rule takeWhile_eq_take [symmetric])
  finally show ?thesis by (simp add: baseToken_def)
next
  case False
  then have tw: "baseToken command = trim command"
    unfolding baseToken_def by (auto simp: takeWhile_eq_all_conv)
  have "extractBaseCommand command = trim command"
    using False by (simp add: extractBaseCommand_def Let_def indexOf_char_none)
  with tw show ?thesis by simp
qed

text \<open>
  C4. The shell policy applies its checks in a fixed order: a disabled shell is denied
  with the tag \<open>shell.enabled\<close>; otherwise a blocked pattern that is a contiguous part of
  the raw command is denied with the tag \<open>shell.blockedPatterns\<close>, before the allowlist is
  looked at; otherwise, when the allowlist is not empty and the base token (the trimmed
  command up to the first space) equals none of its entries, the command is denied with
  the tag \<open>shell.allowedCommands\<close> and a suggestion that lists the allowed commands;
  otherwise an approval pattern that is a contiguous part of the command asks for
  approval with the tag \<open>shell.approvalRequired\<close>; otherwise the command is allowed.
\<close>

theorem evaluateShellPolicy_order:
  "decisionOf (evaluateShellPolicy p command) =
     (if \<not> sh_enabled p then
        Deny (Some ''Shell execution is disabled'')
          (Some ''Use a policy that allows shell execution'') (Some ''shell.enabled'')
      else if occursIn (blockedPatterns p) command then
        Deny (Some ''Command contains blocked pattern'') None (Some ''shell.blockedPatterns'')
      else if listOrEmpty (allowedCommands p) \<noteq> []
              \<and> baseToken command \<notin> set (listOrEmpty (allowedCommands p)) then
        Deny (Some (''Command '' @ dq @ baseToken command @ dq @ '' is not in allowed commands''))
          (Some (''Allowed commands: '' @ join '', '' (listOrEmpty (allowedCommands p))))
          (Some ''shell.allowedCommands'')
      else if occursIn (approvalRequired p) command then
        RequireApproval (Some ''Command requires approval'') (Some ''shell.approvalRequired'')
      else Allow)"
  by (simp add: evaluateShellPolicy_def decisionOf_def evaluation_def
      presentAndMatches_occursIn extractBaseCommand_baseToken)

theorem evaluateShellPolicy_order_witness:
  "decisionOf (evaluateShellPolicy (shell standardPolicy) ''echo rm -rf tmp'')
     = RequireApproval (Some ''Command requires approval'') (Some ''shell.approvalRequired'')
   \<and> decisionOf (evaluateShellPolicy (shell standardPolicy) ''echo sudo ls'')
     = Deny (Some ''Command contains blocked pattern'') None (Some ''shell.blockedPatterns'')
   \<and> decisionOf (evaluateShellPolicy (shell standardPolicy) ''rm -rf tmp'')
     = Deny (Some (''Command '' @ dq @ ''rm'' @ dq @ '' is not in allowed commands''))
          (Some ''Allowed commands: bun, node, npm, npx, cat, echo, ls, pwd, head, tail, grep, find, wc'')
          (Some ''shell.allowedCommands'')"
  using evaluateShellPolicy_order [of "shell standardPolicy" "''echo rm -rf tmp''"]
    evaluateShellPolicy_order [of "shell standardPolicy" "''echo sudo ls''"]
    evaluateShellPolicy_order [of "shell standardPolicy" "''rm -rf tmp''"]
  by (simp add: shell_standard occursIn_def listOrEmpty_def baseToken_def trim_def isWhiteSpace_def
      sublist_Cons_right)

text \<open>
  C6. For a requested timeout between 1000 and 3600000 the effective timeout is the
  smaller of the request and the policy's timeout; with no request it is the policy's
  timeout; and it never exceeds the policy's timeout.
\<close>

theorem getShellTimeout_effective:
  "(1000 \<le> t \<and> t \<le> 3600000 \<longrightarrow> getShellTimeout p (Some t) = min t (sh_timeout p))
   \<and> getShellTimeout p None = sh_timeout p
   \<and> getShellTimeout p r \<le> sh_timeout p"
  by (auto simp: getShellTimeout_def split: option.splits)

theorem getShellTimeout_effective_witness:
  "getShellTimeout (shell standardPolicy) (Some 5000) = 5000
   \<and> getShellTimeout (shell standardPolicy) (Some 60000) = 30000
   \<and> getShellTimeout (shell standardPolicy) None = 30000"
  using getShellTimeout_effective [of 5000 "shell standardPolicy" "Some 60000"]
    getShellTimeout_effective [of 60000 "shell standardPolicy" "None"]
  by (simp add: shell_standard)


section \<open>Run executor\<close>

text \<open>The events pushed before a call of the loop stay in front of the ones it pushes.\<close>

lemma loop_acc:
  "executeRunLoop now sb pol ops evs w =
     (case executeRunLoop now sb pol ops [] w of
        (Inl err, w') \<Rightarrow> (Inl err, w')
      | (Inr r, w') \<Rightarrow> (Inr (r\<lparr>events := evs @ events r\<rparr>), w'))"
proof (induction ops arbitrary: evs w)
  case Nil
  show ?case by simp
next
  case (Cons operation rest)
  show ?case
  proof (cases "evaluate pol operation")
    case (Inl err)
    then show ?thesis by simp
  next
    case (Inr e)
    show ?thesis
    proof (cases "allowed e")
      case False
      with Inr show ?thesis
        using Cons.IH [of "evs @ [PolicyDeniedEvent (now w) (op_id operation) (op_type operation)
                        (orElse (reason e) ''Operation denied by policy'') (suggestion e)]" w]
          Cons.IH [of "[PolicyDeniedEvent (now w) (op_id operation) (op_type operation)
                        (orElse (reason e) ''Operation denied by policy'') (suggestion e)]" w]
        by (simp split: prod.splits sum.splits)
    next
      case True
      show ?thesis
      proof (cases "requiresApproval e")
        case True
        with Inr \<open>allowed e\<close> show ?thesis by simp
      next
        case False
        obtain ev w1 where x: "executeOperation now operation sb w = (ev, w1)"
          by (cases "executeOperation now operation sb w")
        with Inr \<open>allowed e\<close> False show ?thesis
          using Cons.IH [of "evs @ [ev]" w1] Cons.IH [of "[ev]" w1]
          by (simp split: prod.splits sum.splits)
      qed
    qed
  qed
qed

lemma executeOperation_type:
  "event_type (fst (executeOperation now operation sb w)) = op_type operation"
  by (cases operation) (simp_all split: prod.splits)

text \<open>One step of the loop, seen from the result.\<close>

lemma loop_step:
  assumes "fst (executeRunLoop now sb pol (operation # rest) [] w) = Inr r"
  shows "(\<exists>e. evaluate pol operation = Inr e \<and> allowed e \<and> requiresApproval e
            \<and> status r = awaiting_approval
            \<and> (\<exists>ev. events r = [ev] \<and> event_type ev = ''approvalRequired'')
            \<and> map_option pa_operationId (pendingApproval r) = Some (orElse (op_id operation) []))
       \<or> (\<exists>ev w' r'. fst (executeRunLoop now sb pol rest [] w') = Inr r'
            \<and> answers operation ev \<and> r = r'\<lparr>events := ev # events r'\<rparr>)"
proof (cases "evaluate pol operation")
  case (Inl err)
  with assms show ?thesis by simp
next
  case (Inr e)
  show ?thesis
  proof (cases "allowed e")
    case False
    define pd where "pd = PolicyDeniedEvent (now w) (op_id operation) (op_type operation)
                        (orElse (reason e) ''Operation denied by policy'') (suggestion e)"
    have "executeRunLoop now sb pol (operation # rest) [] w = executeRunLoop now sb pol rest [pd] w"
      using Inr False by (simp add: pd_def)
    with assms have "fst (executeRunLoop now sb pol rest [pd] w) = Inr r" by simp
    then obtain r' where "fst (executeRunLoop now sb pol rest [] w) = Inr r'"
      and "r = r'\<lparr>events := pd # events r'\<rparr>"
      by (subst (asm) loop_acc) (auto split: prod.splits sum.splits)
    moreover have "answers operation pd" by (simp add: answers_def pd_def)
    ultimately show ?thesis by blast
  next
    case True
    show ?thesis
    proof (cases "requiresApproval e")
      case True
      with Inr \<open>allowed e\<close> assms show ?thesis by auto
    next
      case False
      obtain ev w1 where x: "executeOperation now operation sb w = (ev, w1)"
        by (cases "executeOperation now operation sb w")
      have "executeRunLoop now sb pol (operation # rest) [] w = executeRunLoop now sb pol rest [ev] w1"
        using Inr \<open>allowed e\<close> False x by simp
      with assms have "fst (executeRunLoop now sb pol rest [ev] w1) = Inr r" by simp
      then obtain r' where "fst (executeRunLoop now sb pol rest [] w1) = Inr r'"
        and "r = r'\<lparr>events := ev # events r'\<rparr>"
        by (subst (asm) loop_acc) (auto split: prod.splits sum.splits)
      moreover have "answers operation ev"
        using executeOperation_type [of now operation sb w] x by (simp add: answers_def)
      ultimately show ?thesis by blast
    qed
  qed
qed

lemma loop_shape:
  "fst (executeRunLoop now sb pol ops [] w) = Inr r \<Longrightarrow>
     (status r = completed \<and> list_all2 answers ops (events r))
     \<or> (status r = awaiting_approval
         \<and> (\<exists>pre ev. events r = pre @ [ev] \<and> length pre < length ops
               \<and> list_all2 answers (take (length pre) ops) pre
               \<and> event_type ev = ''approvalRequired''
               \<and> map_option pa_operationId (pendingApproval r)
                   = Some (orElse (op_id (ops ! length pre)) [])))"
proof (induction ops arbitrary: w r)
  case Nil
  then show ?case by auto
next
  case (Cons operation rest)
  from loop_step [OF Cons.prems] show ?case
  proof (elim disjE exE conjE)
    fix e ev
    assume "status r = awaiting_approval" "events r = [ev]" "event_type ev = ''approvalRequired''"
      "map_option pa_operationId (pendingApproval r) = Some (orElse (op_id operation) [])"
    then show ?thesis by simp
  next
    fix ev w' r'
    assume r': "fst (executeRunLoop now sb pol rest [] w') = Inr r'"
      and a: "answers operation ev" and r: "r = r'\<lparr>events := ev # events r'\<rparr>"
    from Cons.IH [OF r'] show ?thesis
    proof (elim disjE exE conjE)
      assume "status r' = completed" "list_all2 answers rest (events r')"
      with a r show ?thesis by simp
    next
      fix pre ev'
      assume "status r' = awaiting_approval" "events r' = pre @ [ev']" "length pre < length rest"
        "list_all2 answers (take (length pre) rest) pre" "event_type ev' = ''approvalRequired''"
        "map_option pa_operationId (pendingApproval r') = Some (orElse (op_id (rest ! length pre)) [])"
      with a r have "status r = awaiting_approval \<and> events r = (ev # pre) @ [ev']
          \<and> length (ev # pre) < length (operation # rest)
          \<and> list_all2 answers (take (length (ev # pre)) (operation # rest)) (ev # pre)
          \<and> event_type ev' = ''approvalRequired''
          \<and> map_option pa_operationId (pendingApproval r)
               = Some (orElse (op_id ((operation # rest) ! length (ev # pre))) [])"
        by simp
      then show ?thesis by blast
    qed
  qed
qed

lemma executeRun_shape:
  "fst (executeRun now sandbox pol ops w) = Inr r \<Longrightarrow>
     length (events r) \<le> length ops
     \<and> (status r = completed \<or> status r = awaiting_approval)
     \<and> (status r = completed \<longrightarrow>
          length (events r) = length ops
          \<and> (\<forall>i < length ops. answers (ops ! i) (events r ! i)))
     \<and> (status r = awaiting_approval \<longrightarrow>
          events r \<noteq> []
          \<and> (\<forall>i < length (events r) - 1. answers (ops ! i) (events r ! i))
          \<and> event_type (last (events r)) = ''approvalRequired''
          \<and> map_option pa_operationId (pendingApproval r)
              = Some (orElse (op_id (ops ! (length (events r) - 1))) []))"
proof -
  assume "fst (executeRun now sandbox pol ops w) = Inr r"
  then have "fst (executeRunLoop now sandbox pol ops [] w) = Inr r" by (simp add: executeRun_def)
  from loop_shape [OF this] show ?thesis
  proof (elim disjE exE conjE)
    assume "status r = completed" "list_all2 answers ops (events r)"
    then show ?thesis by (auto simp: list_all2_conv_all_nth)
  next
    fix pre ev
    assume s: "status r = awaiting_approval" and e: "events r = pre @ [ev]"
      and l: "length pre < length ops"
      and a: "list_all2 answers (take (length pre) ops) pre"
      and t: "event_type ev = ''approvalRequired''"
      and p: "map_option pa_operationId (pendingApproval r) = Some (orElse (op_id (ops ! length pre)) [])"
    have "\<forall>i < length pre. answers (ops ! i) (pre ! i)"
      using a l by (auto simp: list_all2_conv_all_nth)
    then have "\<forall>i < length (events r) - 1. answers (ops ! i) (events r ! i)"
      using e by (simp add: nth_append)
    with s e l t p show ?thesis by simp
  qed
qed

text \<open>The loop returns a result unless the policy engine throws.\<close>

lemma loop_returns:
  "list_all (\<lambda>operation. \<not> isl (evaluate pol operation)) ops \<Longrightarrow>
     \<not> isl (fst (executeRunLoop now sb pol ops evs w))"
proof (induction ops arbitrary: evs w)
  case Nil
  show ?case by simp
next
  case (Cons operation rest)
  then obtain e where "evaluate pol operation = Inr e" by (cases "evaluate pol operation") auto
  with Cons show ?case by (auto split: prod.splits)
qed

text \<open>
  C3. \<open>executeRun\<close> returns a result unless the policy engine throws on one of the
  operations. Whenever it returns a result, the result holds one event per evaluated
  operation, in operation order: there are at most as many events as operations; the
  status is \<open>completed\<close> or \<open>awaiting_approval\<close>; if it is \<open>completed\<close>, there are exactly as
  many events as operations and the i-th event has the type of the i-th operation or is a
  \<open>policyDenied\<close> event; if it is \<open>awaiting_approval\<close>, the same holds of every event but
  the last, the last event is an \<open>approvalRequired\<close> event, and the operationId of the
  pending approval is the id of the operation at the index of that last event when that
  id is present and not empty, and the empty string otherwise.
\<close>

theorem executeRun_events:
  "(list_all (\<lambda>operation. \<not> isl (evaluate pol operation)) ops
      \<longrightarrow> \<not> isl (fst (executeRun now sandbox pol ops w)))
   \<and> (fst (executeRun now sandbox pol ops w) = Inr r \<longrightarrow>
     length (events r) \<le> length ops
     \<and> (status r = completed \<or> status r = awaiting_approval)
     \<and> (status r = completed \<longrightarrow>
          length (events r) = length ops
          \<and> (\<forall>i < length ops. answers (ops ! i) (events r ! i)))
     \<and> (status r = awaiting_approval \<longrightarrow>
          events r \<noteq> []
          \<and> (\<forall>i < length (events r) - 1. answers (ops ! i) (events r ! i))
          \<and> event_type (last (events r)) = ''approvalRequired''
          \<and> map_option pa_operationId (pendingApproval r)
              = Some (orElse (op_id (ops ! (length (events r) - 1))) [])))"
  using loop_returns [of pol ops now sandbox "[]" w] executeRun_shape [of now sandbox pol ops w r]
  by (simp add: executeRun_def)

text \<open>
  The claim as written asks the pending operationId to be the id of the operation. For a
  gated operation without an id it is the empty string, which is not the absent id.
\<close>

theorem executeRun_events_counterexample:
  "fst (executeRun fixedClock recordingSandbox standardPolicy
          [ShellOp None ''echo rm -rf tmp'' None None None] [])
     = Inr \<lparr>events =
              [ApprovalRequiredEvent ''2025-01-15T10:40:00.000Z'' (Some []) ''shell''
                 ''Command requires approval''
                 \<lparr>d_policy = Some ''shell.approvalRequired'', d_command = Some ''echo rm -rf tmp'',
                  d_path = None\<rparr>],
            status = awaiting_approval,
            pendingApproval = Some
              \<lparr>pa_operationId = [], pa_operationType = ''shell'',
               pa_reason = ''Command requires approval'',
               pa_details =
                 \<lparr>d_policy = Some ''shell.approvalRequired'', d_command = Some ''echo rm -rf tmp'',
                  d_path = None\<rparr>\<rparr>\<rparr>
   \<and> op_id ([ShellOp None ''echo rm -rf tmp'' None None None] ! (1 - 1)) = None"
  by code_simp

theorem executeRun_events_witness:
  "fst (executeRun fixedClock recordingSandbox standardPolicy
          [MessageOp (Some ''m1'') ''hi'', gatedShell, MessageOp None ''later''] [])
     = Inr \<lparr>events =
              [MessageEvent ''2025-01-15T10:40:00.000Z'' (Some ''m1''),
               ApprovalRequiredEvent ''2025-01-15T10:40:00.000Z'' (Some ''op1'') ''shell''
                 ''Command requires approval''
                 \<lparr>d_policy = Some ''shell.approvalRequired'', d_command = Some ''echo rm -rf tmp'',
                  d_path = None\<rparr>],
            status = awaiting_approval,
            pendingApproval = Some
              \<lparr>pa_operationId = ''op1'', pa_operationType = ''shell'',
               pa_reason = ''Command requires approval'',
               pa_details =
                 \<lparr>d_policy = Some ''shell.approvalRequired'', d_command = Some ''echo rm -rf tmp'',
                  d_path = None\<rparr>\<rparr>\<rparr>
   \<and> orElse (op_id ([MessageOp (Some ''m1'') ''hi'', gatedShell, MessageOp None ''later''] ! (2 - 1))) []
     = ''op1''"
proof -
  let ?ops = "[MessageOp (Some ''m1'') ''hi'', gatedShell, MessageOp None ''later'']"
  let ?r = "\<lparr>events =
              [MessageEvent ''2025-01-15T10:40:00.000Z'' (Some ''m1''),
               ApprovalRequiredEvent ''2025-01-15T10:40:00.000Z'' (Some ''op1'') ''shell''
                 ''Command requires approval''
                 \<lparr>d_policy = Some ''shell.approvalRequired'', d_command = Some ''echo rm -rf tmp'',
                  d_path = None\<rparr>],
            status = awaiting_approval,
            pendingApproval = Some
              \<lparr>pa_operationId = ''op1'', pa_operationType = ''shell'',
               pa_reason = ''Command requires approval'',
               pa_details =
                 \<lparr>d_policy = Some ''shell.approvalRequired'', d_command = Some ''echo rm -rf tmp'',
                  d_path = None\<rparr>\<rparr>\<rparr>"
  have h: "fst (executeRun fixedClock recordingSandbox standardPolicy ?ops []) = Inr ?r"
    by code_simp
  have t: "list_all (\<lambda>operation. \<not> isl (evaluate standardPolicy operation)) ?ops"
    by code_simp
  from executeRun_events [of standardPolicy ?ops fixedClock recordingSandbox "[]" ?r] h t
  show ?thesis by simp
qed

text \<open>
  The state after the loop is the state after the operations that were decided \<open>Allow\<close>
  among those the loop reached.
\<close>

lemma loop_state:
  "snd (executeRunLoop now sb pol ops evs w)
     = dispatchAll now sb (filter (\<lambda>operation. decided pol operation = Some Allow)
         (takeWhile (continues pol) ops)) w"
proof (induction ops arbitrary: evs w)
  case Nil
  show ?case by (simp add: dispatchAll_def)
next
  case (Cons operation rest)
  show ?case
  proof (cases "evaluate pol operation")
    case (Inl err)
    then show ?thesis by (simp add: dispatchAll_def continues_def decided_def)
  next
    case (Inr e)
    then show ?thesis
      using Cons.IH
      by (auto simp: dispatchAll_def continues_def decided_def decisionOf_def split: prod.splits)
  qed
qed

text \<open>
  C10. An operation whose decision is \<open>Deny\<close> or \<open>RequireApproval\<close> is never handed to the
  sandbox: for every sandbox, the state after \<open>executeRun\<close> is the state that dispatching
  the \<open>Allow\<close>-decided operations alone produces, taken in order from the operations before
  the one that ended the run.
\<close>

theorem executeRun_dispatches_allowed_only:
  "snd (executeRun now sandbox pol ops w)
     = dispatchAll now sandbox (filter (\<lambda>operation. decided pol operation = Some Allow)
         (takeWhile (continues pol) ops)) w"
  by (simp add: executeRun_def loop_state)



theorem executeRun_dispatches_allowed_only_witness:
  "snd (executeRun fixedClock recordingSandbox standardPolicy
          [CreateFileOp None ''ok.txt'' ''ok'' None None,
           ShellOp None ''sudo rm -rf /'' None None None,
           CreateFileOp None ''tail.txt'' ''t'' None None,
           gatedShell,
           DeleteFileOp None ''ok.txt''] [])
     = [CreateFileCall ''ok.txt'', CreateFileCall ''tail.txt'']"
proof -
  let ?ops = "[CreateFileOp None ''ok.txt'' ''ok'' None None,
           ShellOp None ''sudo rm -rf /'' None None None,
           CreateFileOp None ''tail.txt'' ''t'' None None,
           gatedShell,
           DeleteFileOp None ''ok.txt'']"
  have "dispatchAll fixedClock recordingSandbox
          (filter (\<lambda>operation. decided standardPolicy operation = Some Allow)
             (takeWhile (continues standardPolicy) ?ops)) []
        = [CreateFileCall ''ok.txt'', CreateFileCall ''tail.txt'']"
    by code_simp
  with executeRun_dispatches_allowed_only [of fixedClock recordingSandbox standardPolicy ?ops "[]"]
  show ?thesis by simp
qed

section \<open>Validation\<close>

text \<open>
  When a schema reports an issue does not depend on the path at which the value stands.
\<close>

lemma sublist_single: "sublist [c] s \<longleftrightarrow> c \<in> set s"
  by (induction s) (auto simp: sublist_Cons_right)

lemma isl_both: "isl (both a b) \<longleftrightarrow> isl a \<or> isl b"
  by (cases a; cases b) auto

lemma isl_mapResult: "isl (mapResult f r) \<longleftrightarrow> isl r"
  by (cases r) auto

lemma isl_collect: "isl (collect rs) \<longleftrightarrow> (\<exists>r \<in> set rs. isl r)"
  by (induction rs) (auto simp: isl_both isl_mapResult)

lemma isl_zString:
  "isl (zString m v p) \<longleftrightarrow> (\<forall>s. v = Some (JStr s) \<longrightarrow> (\<exists>n. m = Some n \<and> n < length s))"
  by (cases "(m, v, p)" rule: zString.cases) auto

lemma isl_pathSchema: "isl (pathSchema v p) \<longleftrightarrow> (\<forall>s. v = Some (JStr s) \<longrightarrow> badPath s)"
  by (cases "(v, p)" rule: pathSchema.cases)
     (auto simp: badPath_def Let_def MAX_PATH_LENGTH_def startsWith_prefix str_includes_sublist
        sublist_single)

lemma isl_optional: "isl (optional f v p) \<longleftrightarrow> v \<noteq> None \<and> isl (f v p)"
  by (cases v) (auto simp: isl_mapResult)

lemma isl_withDefault: "isl (withDefault f d v p) \<longleftrightarrow> v \<noteq> None \<and> isl (f v p)"
  by (cases v) auto

lemma isl_zBoolean: "isl (zBoolean v p) \<longleftrightarrow> (\<forall>b. v \<noteq> Some (JBool b))"
  by (cases "(v, p)" rule: zBoolean.cases) auto

lemma isl_encodingEnum:
  "isl (encodingEnum v p) \<longleftrightarrow> v \<noteq> Some (JStr ''utf-8'') \<and> v \<noteq> Some (JStr ''base64'')"
  by (cases "(v, p)" rule: encodingEnum.cases) auto

lemma isl_timeoutSchema:
  "isl (timeoutSchema v p)
     \<longleftrightarrow> (\<forall>x. v = Some (JNum x) \<longrightarrow> \<not> isInteger x \<or> x < 1000 \<or> 3600000 < x)"
  by (cases "(v, p)" rule: timeoutSchema.cases) (auto simp: Let_def MIN_TIMEOUT_def MAX_TIMEOUT_def)

lemma isl_envSchema:
  "isl (envSchema v p)
     \<longleftrightarrow> (\<forall>obj. v = Some (JObj obj) \<longrightarrow> (\<exists>kx \<in> set obj. \<forall>s. snd kx \<noteq> JStr s))"
proof (cases "(v, p)" rule: envSchema.cases)
  case (1 obj p')
  have pt: "isl (case kx of (k, x) \<Rightarrow> mapResult (\<lambda>s. (k, s)) (zString None (Some x) (p @ [Field k])))
      \<longleftrightarrow> (\<forall>s. snd kx \<noteq> JStr s)" for kx
    by (cases kx) (simp add: isl_mapResult isl_zString)
  have "isl (envSchema (Some (JObj obj)) p)
      \<longleftrightarrow> (\<exists>kx \<in> set obj. isl (case kx of (k, x) \<Rightarrow>
             mapResult (\<lambda>s. (k, s)) (zString None (Some x) (p @ [Field k]))))"
    by (simp add: isl_collect)
  with 1 show ?thesis by (simp only: pt) simp
qed auto

lemma isl_fileEditSchema:
  "isl (fileEditSchema v p)
     \<longleftrightarrow> (\<forall>obj. v = JObj obj \<longrightarrow>
           (\<forall>s. getProp obj ''oldContent'' \<noteq> Some (JStr s))
           \<or> (\<forall>s. getProp obj ''newContent'' \<noteq> Some (JStr s)))"
  by (cases v) (auto simp: isl_mapResult isl_both isl_zString)

lemma isl_zArray:
  "isl (zArray n f v p)
     \<longleftrightarrow> (\<forall>xs. v = Some (JArr xs) \<longrightarrow>
           length xs < n \<or> (\<exists>i < length xs. isl (f (xs ! i) (p @ [Index i]))))"
proof (cases "\<exists>xs. v = Some (JArr xs)")
  case True
  then obtain xs where v: "v = Some (JArr xs)" by blast
  have "(\<exists>r \<in> set (map (\<lambda>(i, x). f x (p @ [Index i])) (enumerate 0 xs)). isl r)
      \<longleftrightarrow> (\<exists>i < length xs. isl (f (xs ! i) (p @ [Index i])))"
  proof
    assume "\<exists>r \<in> set (map (\<lambda>(i, x). f x (p @ [Index i])) (enumerate 0 xs)). isl r"
    then obtain i x where "(i, x) \<in> set (enumerate 0 xs)" "isl (f x (p @ [Index i]))" by auto
    then show "\<exists>i < length xs. isl (f (xs ! i) (p @ [Index i]))"
      by (auto simp: in_set_enumerate_eq)
  next
    assume "\<exists>i < length xs. isl (f (xs ! i) (p @ [Index i]))"
    then obtain i where i: "i < length xs" "isl (f (xs ! i) (p @ [Index i]))" by blast
    then have "(i, xs ! i) \<in> set (enumerate 0 xs)" by (simp add: in_set_enumerate_eq)
    with i show "\<exists>r \<in> set (map (\<lambda>(i, x). f x (p @ [Index i])) (enumerate 0 xs)). isl r"
      by force
  qed
  with v show ?thesis by (simp add: isl_mapResult isl_both isl_collect)
next
  case False
  then show ?thesis by (cases "(n, f, v, p)" rule: zArray.cases) auto
qed

lemmas isl_schema = isl_both isl_mapResult isl_zString isl_pathSchema isl_optional
  isl_withDefault isl_zBoolean isl_encodingEnum isl_timeoutSchema isl_envSchema
  isl_fileEditSchema isl_zArray

lemmas operation_schemas = messageOperationSchema_def createFileOperationSchema_def
  readFileOperationSchema_def editFileOperationSchema_def deleteFileOperationSchema_def
  shellOperationSchema_def idSchema_def encodingSchema_def

lemma isl_message_path: "isl (messageOperationSchema obj p) \<longleftrightarrow> isl (messageOperationSchema obj q)"
  by (simp add: messageOperationSchema_def idSchema_def isl_schema)

lemma isl_createFile_path: "isl (createFileOperationSchema obj p) \<longleftrightarrow> isl (createFileOperationSchema obj q)"
  by (simp add: createFileOperationSchema_def idSchema_def encodingSchema_def isl_schema)

lemma isl_readFile_path: "isl (readFileOperationSchema obj p) \<longleftrightarrow> isl (readFileOperationSchema obj q)"
  by (simp add: readFileOperationSchema_def idSchema_def encodingSchema_def isl_schema)

lemma isl_editFile_path: "isl (editFileOperationSchema obj p) \<longleftrightarrow> isl (editFileOperationSchema obj q)"
  by (simp add: editFileOperationSchema_def idSchema_def isl_schema)

lemma isl_deleteFile_path: "isl (deleteFileOperationSchema obj p) \<longleftrightarrow> isl (deleteFileOperationSchema obj q)"
  by (simp add: deleteFileOperationSchema_def idSchema_def isl_schema)

lemma isl_shell_path: "isl (shellOperationSchema obj p) \<longleftrightarrow> isl (shellOperationSchema obj q)"
  by (simp add: shellOperationSchema_def idSchema_def isl_schema)

lemma isl_operationSchema_path: "isl (operationSchema v p) \<longleftrightarrow> isl (operationSchema v q)"
proof (cases v)
  case (JObj obj)
  then show ?thesis
    using isl_message_path [of obj p q] isl_createFile_path [of obj p q] isl_readFile_path [of obj p q]
      isl_editFile_path [of obj p q] isl_deleteFile_path [of obj p q] isl_shell_path [of obj p q]
    by (simp split: option.splits Json.splits)
qed simp_all

lemma validateOperation_path:
  assumes "getProp obj ''type'' = Some (JStr t)"
    and "t \<in> set [''createFile'', ''readFile'', ''editFile'', ''deleteFile'']"
    and "getProp obj ''path'' = Some (JStr path)" and "badPath path"
  shows "isl (validateOperation (JObj obj))"
proof -
  have p: "isl (pathSchema (getProp obj ''path'') [Field ''path''])"
    using assms(3,4) by (simp only: isl_pathSchema) simp
  from assms(2) consider "t = ''createFile''" | "t = ''readFile''" | "t = ''editFile''"
    | "t = ''deleteFile''" by auto
  then show ?thesis
  proof cases
    case 1
    with assms(1) p show ?thesis
      by (simp add: validateOperation_def createFileOperationSchema_def isl_both isl_mapResult)
  next
    case 2
    with assms(1) p show ?thesis
      by (simp add: validateOperation_def readFileOperationSchema_def isl_both isl_mapResult)
  next
    case 3
    with assms(1) p show ?thesis
      by (simp add: validateOperation_def editFileOperationSchema_def isl_both isl_mapResult)
  next
    case 4
    with assms(1) p show ?thesis
      by (simp add: validateOperation_def deleteFileOperationSchema_def isl_both isl_mapResult)
  qed
qed

lemma validateOperation_content:
  assumes "getProp obj ''type'' = Some (JStr ''createFile'')"
    and "getProp obj ''content'' = Some (JStr content)" and "10 * 1024 * 1024 < length content"
  shows "isl (validateOperation (JObj obj))"
proof -
  have "isl (zString (Some MAX_CONTENT_LENGTH) (getProp obj ''content'') [Field ''content''])"
    using assms(2,3) by (simp add: MAX_CONTENT_LENGTH_def)
  with assms(1) show ?thesis
    by (simp add: validateOperation_def createFileOperationSchema_def isl_both isl_mapResult)
qed

lemma validateOperation_edits:
  assumes "getProp obj ''type'' = Some (JStr ''editFile'')"
    and "getProp obj ''edits'' = Some (JArr [])"
  shows "isl (validateOperation (JObj obj))"
proof -
  have "isl (zArray 1 fileEditSchema (getProp obj ''edits'') [Field ''edits''])"
    using assms(2) by (simp add: isl_both isl_mapResult)
  with assms(1) show ?thesis
    by (simp add: validateOperation_def editFileOperationSchema_def isl_both isl_mapResult)
qed

lemma validateOperation_timeout:
  assumes "getProp obj ''type'' = Some (JStr ''shell'')"
    and "getProp obj ''timeout'' = Some (JNum x)" and "x < 1000 \<or> 3600000 < x"
  shows "isl (validateOperation (JObj obj))"
proof -
  have "isl (optional timeoutSchema (getProp obj ''timeout'') [Field ''timeout''])"
    using assms(2,3) by (simp only: isl_optional isl_timeoutSchema) auto
  with assms(1) show ?thesis
    by (simp add: validateOperation_def shellOperationSchema_def isl_both isl_mapResult)
qed

lemma validateOperationsMessage_operation:
  assumes "member v ''operations'' = Some (JArr ops)" "x \<in> set ops" "isl (validateOperation x)"
  shows "isl (validateOperationsMessage v)"
proof -
  from assms(1) obtain obj where v: "v = JObj obj" and o: "getProp obj ''operations'' = Some (JArr ops)"
    by (auto simp: member_def split: Json.splits)
  from assms(2) obtain i where i: "i < length ops" "ops ! i = x" by (auto simp: in_set_conv_nth)
  have "isl (operationSchema x ([Field ''operations''] @ [Index i]))"
    using assms(3) isl_operationSchema_path [of x "[]"] by (simp add: validateOperation_def)
  with i have "isl (zArray 0 operationSchema (Some (JArr ops)) [Field ''operations''])"
    by (subst isl_zArray) auto
  with v o show ?thesis by (simp add: validateOperationsMessage_def isl_both isl_mapResult)
qed

lemma validateOperationsMessage_version:
  assumes "member v ''protocolVersion'' \<noteq> Some (JStr ''1.0'')"
  shows "isl (validateOperationsMessage v)"
proof (cases v)
  case (JObj obj)
  with assms have "isl (protocolVersionLiteral (getProp obj ''protocolVersion'') [Field ''protocolVersion''])"
    by (cases "(getProp obj ''protocolVersion'', [Field ''protocolVersion''])" rule: protocolVersionLiteral.cases)
       (auto simp: member_def)
  with JObj show ?thesis by (simp add: validateOperationsMessage_def isl_both isl_mapResult)
qed (simp_all add: validateOperationsMessage_def)


text \<open>
  What the validators reject. \<open>validateOperation\<close> returns an error, not a parsed value,
  for a file operation whose path starts with \<open>/\<close>, contains \<open>..\<close>, contains a NUL or is
  longer than 255; for a \<open>createFile\<close> whose content is longer than 10 * 1024 * 1024 code
  units; for an \<open>editFile\<close> whose list of edits is empty; and for a \<open>shell\<close> whose timeout
  is below 1000 or above 3600000. \<open>validateOperationsMessage\<close> returns an error for an
  envelope one of whose operations \<open>validateOperation\<close> rejects, and for an envelope whose
  \<open>protocolVersion\<close> is not exactly the string \<open>1.0\<close>.
\<close>

lemma validation_rejects:
  "(member v ''type'' = Some (JStr t)
      \<and> t \<in> set [''createFile'', ''readFile'', ''editFile'', ''deleteFile'']
      \<and> member v ''path'' = Some (JStr path) \<and> badPath path
      \<longrightarrow> isl (validateOperation v))
   \<and> (member v ''type'' = Some (JStr ''createFile'')
      \<and> member v ''content'' = Some (JStr content) \<and> 10 * 1024 * 1024 < length content
      \<longrightarrow> isl (validateOperation v))
   \<and> (member v ''type'' = Some (JStr ''editFile'') \<and> member v ''edits'' = Some (JArr [])
      \<longrightarrow> isl (validateOperation v))
   \<and> (member v ''type'' = Some (JStr ''shell'')
      \<and> member v ''timeout'' = Some (JNum x) \<and> (x < 1000 \<or> 3600000 < x)
      \<longrightarrow> isl (validateOperation v))
   \<and> (member m ''operations'' = Some (JArr ops) \<and> operation \<in> set ops
      \<and> isl (validateOperation operation)
      \<longrightarrow> isl (validateOperationsMessage m))
   \<and> (member m ''protocolVersion'' \<noteq> Some (JStr ''1.0'')
      \<longrightarrow> isl (validateOperationsMessage m))"
proof (cases v)
  case (JObj obj)
  then show ?thesis
    using validateOperation_path [of obj t path] validateOperation_content [of obj content]
      validateOperation_edits [of obj] validateOperation_timeout [of obj x]
      validateOperationsMessage_operation [of m ops operation]
      validateOperationsMessage_version [of m]
    by (simp add: member_def)
qed (use validateOperationsMessage_operation [of m ops operation]
      validateOperationsMessage_version [of m] in \<open>simp_all add: member_def\<close>)

lemma validation_rejects_examples:
  "isl (validateOperation
          (JObj [(''type'', JStr ''createFile''), (''path'', JStr ''../escape.txt''),
                 (''content'', JStr ''x'')]))
   \<and> isl (validateOperation
          (JObj [(''type'', JStr ''createFile''), (''path'', JStr ''a.txt''),
                 (''content'', JStr (replicate 10485761 CHR ''x''))]))
   \<and> isl (validateOperation
          (JObj [(''type'', JStr ''editFile''), (''path'', JStr ''a.txt''), (''edits'', JArr [])]))
   \<and> isl (validateOperation
          (JObj [(''type'', JStr ''shell''), (''command'', JStr ''ls''), (''timeout'', JNum 500)]))
   \<and> isl (validateOperationsMessage
          (JObj [(''protocolVersion'', JStr ''1.0''),
                 (''operations'', JArr [JObj [(''type'', JStr ''shell''), (''command'', JStr ''ls''),
                                              (''timeout'', JNum 500)]])]))
   \<and> isl (validateOperationsMessage
          (JObj [(''protocolVersion'', JStr ''2.0''), (''operations'', JArr [])]))"
proof -
  let ?timed = "JObj [(''type'', JStr ''shell''), (''command'', JStr ''ls''), (''timeout'', JNum 500)]"
  have t: "isl (validateOperation ?timed)"
    using validation_rejects [where v = ?timed and x = 500] by (simp add: member_def)
  have "isl (validateOperation
          (JObj [(''type'', JStr ''createFile''), (''path'', JStr ''../escape.txt''),
                 (''content'', JStr ''x'')]))"
    using validation_rejects [where t = "''createFile''" and path = "''../escape.txt''"
        and v = "JObj [(''type'', JStr ''createFile''), (''path'', JStr ''../escape.txt''),
                 (''content'', JStr ''x'')]"]
    by (simp add: member_def badPath_def sublist_Cons_right)
  moreover have "isl (validateOperation
          (JObj [(''type'', JStr ''createFile''), (''path'', JStr ''a.txt''),
                 (''content'', JStr (replicate 10485761 CHR ''x''))]))"
    using validation_rejects [where content = "replicate 10485761 CHR ''x''"
        and v = "JObj [(''type'', JStr ''createFile''), (''path'', JStr ''a.txt''),
                 (''content'', JStr (replicate 10485761 CHR ''x''))]"]
    by (simp add: member_def)
  moreover have "isl (validateOperation
          (JObj [(''type'', JStr ''editFile''), (''path'', JStr ''a.txt''), (''edits'', JArr [])]))"
    using validation_rejects [where
        v = "JObj [(''type'', JStr ''editFile''), (''path'', JStr ''a.txt''), (''edits'', JArr [])]"]
    by (simp add: member_def)
  moreover have "isl (validateOperationsMessage
          (JObj [(''protocolVersion'', JStr ''1.0''), (''operations'', JArr [?timed])]))"
    using t validation_rejects [where ops = "[?timed]" and operation = ?timed
        and m = "JObj [(''protocolVersion'', JStr ''1.0''), (''operations'', JArr [?timed])]"]
    by (simp add: member_def)
  moreover have "isl (validateOperationsMessage
          (JObj [(''protocolVersion'', JStr ''2.0''), (''operations'', JArr [])]))"
    using validation_rejects [where
        m = "JObj [(''protocolVersion'', JStr ''2.0''), (''operations'', JArr [])]"]
    by (simp add: member_def)
  ultimately show ?thesis using t by simp
qed

text \<open>The size in bytes of a content that repeats one code unit.\<close>

lemma byteLength_replicate:
  "byteLength (replicate n c) = (if (128::nat) \<le> of_char c then 2 * int n else int n)"
  by (simp add: byteLength_def)

text \<open>
  C8. The claim is that \<open>validateOperation\<close> rejects, among the inputs listed above, every
  \<open>createFile\<close> whose content exceeds 10 MiB. The schema bounds the number of code units
  of the content, not its size: a content of 6000000 times the code unit U+00E9 takes
  12000000 bytes, more than the 10485760 bytes of 10 MiB, and \<open>validateOperation\<close>
  accepts it and returns the parsed operation.
\<close>

theorem validateOperation_accepts_large_content:
  "validateOperation
     (JObj [(''type'', JStr ''createFile''), (''path'', JStr ''a.txt''),
            (''content'', JStr (replicate 6000000 (CHR 0xE9)))])
     = Inr (CreateFileOp None ''a.txt'' (replicate 6000000 (CHR 0xE9)) (Some Utf8) (Some False))
   \<and> byteLength (replicate 6000000 (CHR 0xE9)) = 12000000
   \<and> (10 * 1024 * 1024 :: int) < 12000000"
  by (simp add: validateOperation_def createFileOperationSchema_def idSchema_def encodingSchema_def
      MAX_CONTENT_LENGTH_def MAX_PATH_LENGTH_def startsWith_def byteLength_replicate Let_def)

section \<open>Path patterns\<close>

text \<open>
  The source that \<open>matchesPattern\<close> builds is the concatenation of the tokens of the
  pattern's characters, and the model of the pattern compiler covers every such source:
  it never answers \<open>Unsupported\<close>.
\<close>

lemma starToDotStar_append: "starToDotStar (a @ b) = starToDotStar a @ starToDotStar b"
  by (simp add: starToDotStar_def)

lemma regexPattern_tokens:
  "starToDotStar (escapeSpecial pattern) = concat (map regexToken pattern)"
proof (induction pattern)
  case Nil
  show ?case by (simp add: starToDotStar_def escapeSpecial_def)
next
  case (Cons c cs)
  have "escapeSpecial (c # cs) = (if c \<in> set escapedChars then [CHR 0x5C, c] else [c]) @ escapeSpecial cs"
    by (simp add: escapeSpecial_def)
  moreover have "starToDotStar (if c \<in> set escapedChars then [CHR 0x5C, c] else [c]) = regexToken c"
    by (auto simp: starToDotStar_def regexToken_def escapedChars_def)
  ultimately show ?case using Cons by (simp add: starToDotStar_append)
qed

lemma regexToken_cases:
  "(c = CHR ''?'' \<and> regexToken c = ''?'')
   \<or> (c = CHR ''*'' \<and> regexToken c = ''.*'')
   \<or> (c \<in> set escapedChars \<and> regexToken c = [CHR 0x5C, c])
   \<or> (c \<noteq> CHR ''?'' \<and> c \<noteq> CHR ''*'' \<and> c \<noteq> CHR 0x5C \<and> c \<noteq> CHR ''.'' \<and> c \<notin> set escapedChars
        \<and> regexToken c = [c])"
  by (auto simp: regexToken_def escapedChars_def)

lemma dropLazy_tokens:
  "\<exists>r'. dropLazy (concat (map regexToken r)) = concat (map regexToken r') \<and> length r' \<le> length r"
proof (cases r)
  case Nil
  then show ?thesis by simp
next
  case (Cons c r2)
  from regexToken_cases [of c] show ?thesis
  proof (elim disjE conjE)
    assume "c = CHR ''?''" "regexToken c = ''?''"
    with Cons have "dropLazy (concat (map regexToken r)) = concat (map regexToken r2)" by simp
    with Cons show ?thesis by (intro exI [of _ r2]) simp
  next
    assume "c = CHR ''*''" "regexToken c = ''.*''"
    with Cons have "dropLazy (concat (map regexToken r)) = concat (map regexToken r)" by simp
    then show ?thesis by (intro exI [of _ r]) simp
  next
    assume "c \<in> set escapedChars" "regexToken c = [CHR 0x5C, c]"
    with Cons have "dropLazy (concat (map regexToken r)) = concat (map regexToken r)" by simp
    then show ?thesis by (intro exI [of _ r]) simp
  next
    assume "c \<noteq> CHR ''?''" "regexToken c = [c]"
    with Cons have "dropLazy (concat (map regexToken r)) = concat (map regexToken r)" by simp
    then show ?thesis by (intro exI [of _ r]) simp
  qed
qed

lemma quantifier_tokens:
  "\<exists>r'. snd (quantifier (concat (map regexToken r))) = concat (map regexToken r')
        \<and> length r' \<le> length r"
proof (cases r)
  case Nil
  then show ?thesis by simp
next
  case (Cons c r2)
  from regexToken_cases [of c] show ?thesis
  proof (elim disjE conjE)
    assume "c = CHR ''?''" "regexToken c = ''?''"
    with Cons have "snd (quantifier (concat (map regexToken r))) = dropLazy (concat (map regexToken r2))"
      by simp
    with dropLazy_tokens [of r2] Cons show ?thesis by auto
  next
    assume "c = CHR ''*''" "regexToken c = ''.*''"
    with Cons have "snd (quantifier (concat (map regexToken r))) = concat (map regexToken r)" by simp
    then show ?thesis by (intro exI [of _ r]) simp
  next
    assume "c \<in> set escapedChars" "regexToken c = [CHR 0x5C, c]"
    with Cons have "snd (quantifier (concat (map regexToken r))) = concat (map regexToken r)" by simp
    then show ?thesis by (intro exI [of _ r]) simp
  next
    assume "c \<noteq> CHR ''?''" "c \<noteq> CHR ''*''" "regexToken c = [c]"
    with Cons have "snd (quantifier (concat (map regexToken r))) = concat (map regexToken r)" by simp
    then show ?thesis by (intro exI [of _ r]) simp
  qed
qed

lemma parseBody_tokens_supported:
  "parseBody (concat (map regexToken pattern)) \<noteq> Inl Unsupported"
proof (induction pattern rule: length_induct)
  case (1 pattern)
  show ?case
  proof (cases pattern)
    case Nil
    then show ?thesis by simp
  next
    case (Cons c rest)
    obtain r' where q: "snd (quantifier (concat (map regexToken rest))) = concat (map regexToken r')"
      and l: "length r' \<le> length rest"
      using quantifier_tokens [of rest] by blast
    obtain r'' where d: "dropLazy (concat (map regexToken rest)) = concat (map regexToken r'')"
      and l': "length r'' \<le> length rest"
      using dropLazy_tokens [of rest] by blast
    from 1 Cons l have ih: "parseBody (concat (map regexToken r')) \<noteq> Inl Unsupported" by simp
    from 1 Cons l' have ih': "parseBody (concat (map regexToken r'')) \<noteq> Inl Unsupported" by simp
    from regexToken_cases [of c] show ?thesis
    proof (elim disjE conjE)
      assume "c = CHR ''?''" "regexToken c = ''?''"
      with Cons show ?thesis by simp
    next
      assume "c = CHR ''*''" "regexToken c = ''.*''"
      with Cons d ih' show ?thesis by (auto split: sum.splits)
    next
      assume "c \<in> set escapedChars" "regexToken c = [CHR 0x5C, c]"
      with Cons q ih show ?thesis by (auto split: sum.splits)
    next
      assume "c \<noteq> CHR ''?''" "c \<noteq> CHR ''*''" "c \<noteq> CHR 0x5C" "c \<noteq> CHR ''.''"
        "c \<notin> set escapedChars" "regexToken c = [c]"
      with Cons q ih show ?thesis by (auto split: sum.splits)
    qed
  qed
qed

lemma matchesPattern_supported: "matchesPattern path pattern \<noteq> Inl Unsupported"
  using parseBody_tokens_supported [of pattern]
  by (auto simp: matchesPattern_def regexTest_def regexPattern_tokens split: sum.splits)

text \<open>
  C5. The claim is that a pattern matches a path exactly as the anchored regular
  expression with every metacharacter escaped and each \<open>*\<close> turned into \<open>.*\<close>, so that
  every character but \<open>*\<close> stands for itself and \<open>*\<close> for any run of characters. The
  escape list of \<open>matchesPattern\<close> leaves out the question mark, which stays a
  quantifier: the pattern \<open>file?.txt\<close> does not match the path \<open>file?.txt\<close> and does match
  \<open>fil.txt\<close>, the pattern \<open>?\<close> makes the pattern compiler throw, and \<open>*\<close> does not run
  over a line feed.
\<close>

theorem matchesPattern_question_mark:
  "matchesPattern ''file?.txt'' ''file?.txt'' = Inr False
   \<and> matchesPattern ''fil.txt'' ''file?.txt'' = Inr True
   \<and> matchesPattern ''x'' ''?'' = Inl SyntaxError
   \<and> matchesPattern [CHR ''a'', CHR 0x0A, CHR ''b''] ''*'' = Inr False"
  by code_simp


section \<open>Editing a file\<close>

text \<open>A replacement without a dollar sign is inserted as it is.\<close>

lemma getSubstitution_literal:
  "CHR ''$'' \<notin> set new \<Longrightarrow> getSubstitution matched before after new = new"
  by (induction matched before after new rule: getSubstitution.induct) auto

text \<open>The counter of the loop counts the edits.\<close>

lemma applyEdits_count:
  "applyEdits content n edits = Inr (final, m) \<Longrightarrow> m = n + int (length edits)"
proof (induction edits arbitrary: content n)
  case Nil
  then show ?case by simp
next
  case (Cons edit edits)
  then have "applyEdits (replace content (oldContent edit) (newContent edit)) (n + 1) edits
      = Inr (final, m)"
    by (simp split: if_splits)
  from Cons.IH [OF this] show ?case by simp
qed

lemma applyEdits_probe:
  "applyEdits content n edits = Inl probe \<Longrightarrow> probe \<in> oldContent ` set edits"
  by (induction edits arbitrary: content n) (auto split: if_splits)

text \<open>A successful edit applied every edit of the operation.\<close>

lemma editFile_success_count:
  "fr_success (fst (editFile node workspacePath relativePath edits fs)) \<Longrightarrow>
     editsApplied (fst (editFile node workspacePath relativePath edits fs))
       = Some (int (length edits))"
  by (auto simp: editFile_def Let_def failure_def dest: applyEdits_count
      split: if_splits sum.splits prod.splits option.splits)

text \<open>
  An edit whose probe is missing ends the call with a failure that quotes the first 50
  code units of the probe, and nothing is written.
\<close>

lemma editFile_missing_probe:
  assumes "isPathInWorkspace node workspacePath relativePath"
    and "existsSync node fs (getFullPath node workspacePath relativePath)"
    and "readFileUtf8 node fs (getFullPath node workspacePath relativePath) = Inr content"
    and "applyEdits content 0 edits = Inl probe"
  shows "editFile node workspacePath relativePath edits fs
     = (failure relativePath
          (''Could not find content to replace: '' @ dq @ take 50 probe @ ''...'' @ dq), fs)"
  using assms by (simp add: editFile_def Let_def substring_def)

text \<open>
  C7. The claim is that each edit replaces the first occurrence of its \<open>oldContent\<close> with
  its \<open>newContent\<close>. \<open>editFile\<close> hands \<open>newContent\<close> to \<open>replace\<close> as a replacement
  template: the edit of \<open>X\<close> to \<open>$$5\<close> in a file that holds \<open>cost: X\<close> succeeds with one
  edit applied and writes \<open>cost: $5\<close>.
\<close>

theorem editFile_dollar_template:
  "fst (editFile memFs ''/ws'' ''a.txt'' [\<lparr>oldContent = ''X'', newContent = ''$$5''\<rparr>]
          [''/ws/a.txt'' \<mapsto> ''cost: X''])
     = \<lparr>fr_success = True, fr_path = ''a.txt'', fr_content = None, fr_size = Some 8,
        fr_error = None, editsApplied = Some 1\<rparr>
   \<and> snd (editFile memFs ''/ws'' ''a.txt'' [\<lparr>oldContent = ''X'', newContent = ''$$5''\<rparr>]
          [''/ws/a.txt'' \<mapsto> ''cost: X'']) ''/ws/a.txt''
     = Some ''cost: $5''"
  by code_simp



section \<open>Run service\<close>

lemma findIndex_none: "findIndex P xs = - 1 \<longleftrightarrow> (\<forall>x \<in> set xs. \<not> P x)"
proof (induction xs)
  case Nil
  show ?case by simp
next
  case (Cons x xs)
  have "findIndex P xs = - 1 \<or> 0 \<le> findIndex P xs"
    by (induction xs) (auto simp: Let_def)
  with Cons show ?case by (auto simp: Let_def)
qed

text \<open>
  C1. The claim is that a resume with the decision \<open>approved\<close> treats the pending
  operation as allowed, hands it to the sandbox and, for a single gated shell operation
  under the standard preset, appends its shell event and ends \<open>completed\<close>. \<open>resume\<close> calls
  \<open>executeRun\<close> on the operations from the pending one on, which evaluates the policy on
  the pending operation again: the resumed run appends a second \<open>approvalRequired\<close> event,
  stays \<open>awaiting_approval\<close>, and the sandbox is never called.
\<close>

theorem resume_approved_suspends_again:
  "map_option run_status (fst (afterCreate [gatedShell]) ''run_A'') = Some awaiting_approval
   \<and> fst (resume oneSpace fixedClock ''run_A'' (approve ''op1'') (afterCreate [gatedShell]))
     = Inr (\<lparr>run_id = ''run_A'', spaceId = ''spc_1'', run_status = awaiting_approval,
             operations = [gatedShell],
             run_events =
               [ApprovalRequiredEvent ''2025-01-15T10:40:00.000Z'' (Some ''op1'') ''shell''
                  ''Command requires approval''
                  \<lparr>d_policy = Some ''shell.approvalRequired'',
                   d_command = Some ''echo rm -rf tmp'', d_path = None\<rparr>,
                ApprovalRequiredEvent ''2025-01-15T10:40:00.000Z'' (Some ''op1'') ''shell''
                  ''Command requires approval''
                  \<lparr>d_policy = Some ''shell.approvalRequired'',
                   d_command = Some ''echo rm -rf tmp'', d_path = None\<rparr>],
             run_pendingApproval = Some
               \<lparr>pa_operationId = ''op1'', pa_operationType = ''shell'',
                pa_reason = ''Command requires approval'',
                pa_details =
                  \<lparr>d_policy = Some ''shell.approvalRequired'',
                   d_command = Some ''echo rm -rf tmp'', d_path = None\<rparr>\<rparr>,
             startedAt = ''2025-01-15T10:40:00.000Z'', completedAt = None\<rparr>,
            \<lparr>events =
               [ApprovalRequiredEvent ''2025-01-15T10:40:00.000Z'' (Some ''op1'') ''shell''
                  ''Command requires approval''
                  \<lparr>d_policy = Some ''shell.approvalRequired'',
                   d_command = Some ''echo rm -rf tmp'', d_path = None\<rparr>],
             status = awaiting_approval, pendingApproval = None\<rparr>)
   \<and> snd (snd (resume oneSpace fixedClock ''run_A'' (approve ''op1'') (afterCreate [gatedShell]))) = []"
  by code_simp

text \<open>
  C2. The claim is that a resume with the decision \<open>denied\<close> appends one \<open>policyDenied\<close>
  event and then goes on with the operations after the pending one. \<open>resume\<close> appends the
  event, with the decider's reason and the type of the pending operation, and ends the
  run \<open>completed\<close>: the message operation after the gated one gets no event.
\<close>

theorem resume_denied_skips_rest:
  "map_option run_status
     (fst (afterCreate [gatedShell, MessageOp (Some ''m2'') ''after'']) ''run_A'')
     = Some awaiting_approval
   \<and> fst (resume oneSpace fixedClock ''run_A'' (deny ''op1'' (Some ''no''))
          (afterCreate [gatedShell, MessageOp (Some ''m2'') ''after'']))
     = Inr (\<lparr>run_id = ''run_A'', spaceId = ''spc_1'', run_status = completed,
             operations = [gatedShell, MessageOp (Some ''m2'') ''after''],
             run_events =
               [ApprovalRequiredEvent ''2025-01-15T10:40:00.000Z'' (Some ''op1'') ''shell''
                  ''Command requires approval''
                  \<lparr>d_policy = Some ''shell.approvalRequired'',
                   d_command = Some ''echo rm -rf tmp'', d_path = None\<rparr>,
                PolicyDeniedEvent ''2025-01-15T10:40:00.000Z'' (Some ''op1'') ''shell'' ''no'' None],
             run_pendingApproval = None,
             startedAt = ''2025-01-15T10:40:00.000Z'',
             completedAt = Some ''2025-01-15T10:40:00.000Z''\<rparr>,
            \<lparr>events =
               [PolicyDeniedEvent ''2025-01-15T10:40:00.000Z'' (Some ''op1'') ''shell'' ''no'' None],
             status = completed, pendingApproval = None\<rparr>)"
  by code_simp

text \<open>
  The claim as written lets every resume of a run that is suspended on an operation
  without id fail. A resume that names another operation of the run is accepted.
\<close>

theorem resume_without_id_counterexample:
  "map_option run_status (fst (afterCreate noIdBatch) ''run_A'') = Some awaiting_approval
   \<and> map_option (map_option pa_operationId \<circ> run_pendingApproval)
         (fst (afterCreate noIdBatch) ''run_A'') = Some (Some [])
   \<and> op_id (noIdBatch ! 1) = None
   \<and> fst (resume oneSpace fixedClock ''run_A'' (deny ''m1'' None) (afterCreate noIdBatch))
     = Inr (\<lparr>run_id = ''run_A'', spaceId = ''spc_1'', run_status = completed,
             operations = noIdBatch,
             run_events =
               [MessageEvent ''2025-01-15T10:40:00.000Z'' (Some ''m1''),
                ApprovalRequiredEvent ''2025-01-15T10:40:00.000Z'' (Some []) ''shell''
                  ''Command requires approval''
                  \<lparr>d_policy = Some ''shell.approvalRequired'',
                   d_command = Some ''echo rm -rf tmp'', d_path = None\<rparr>,
                PolicyDeniedEvent ''2025-01-15T10:40:00.000Z'' (Some ''m1'') ''message''
                  ''Approval denied by user'' None],
             run_pendingApproval = None,
             startedAt = ''2025-01-15T10:40:00.000Z'',
             completedAt = Some ''2025-01-15T10:40:00.000Z''\<rparr>,
            \<lparr>events =
               [PolicyDeniedEvent ''2025-01-15T10:40:00.000Z'' (Some ''m1'') ''message''
                  ''Approval denied by user'' None],
             status = completed, pendingApproval = None\<rparr>)"
  by code_simp

lemma loop_pending_without_id:
  assumes "fst (executeRunLoop now sb pol ops [] w) = Inr r" "status r = awaiting_approval"
    "op_id (ops ! (length (events r) - 1)) = None"
  shows "map_option pa_operationId (pendingApproval r) = Some []"
  using loop_shape [OF assms(1)] assms(2,3) by (auto simp: orElse_def)

lemma resume_not_found_iff:
  assumes "fst st runId = Some run" "run_status run = awaiting_approval"
    "getSandbox svc (spaceId run) = Some sb" "getPolicyEngine svc (spaceId run) = Some pol"
  shows "fst (resume svc now runId approval st) = Inl (OperationNotFound (ap_operationId approval))
     \<longleftrightarrow> Some (ap_operationId approval) \<notin> op_id ` set (operations run)"
proof -
  have n: "findIndex (\<lambda>operation. op_id operation = Some (ap_operationId approval)) (operations run) = - 1
      \<longleftrightarrow> Some (ap_operationId approval) \<notin> op_id ` set (operations run)"
    unfolding findIndex_none by (metis image_iff)
  show ?thesis
    using assms n
    by (auto simp: resume_def Let_def split: prod.splits sum.splits)
qed

text \<open>
  C9. If a run suspends for approval on an operation that has no id, the operationId of
  the pending approval is the empty string. A resume of a run that awaits approval, in a
  registered space, fails with the operation-not-found error exactly when the operationId
  it supplies is the id of no operation of the run: so the resume that supplies the
  stored empty operationId fails unless some operation of the run has the empty string as
  its id, and a run none of whose operations has an id can never be resumed.
\<close>

theorem resume_without_id:
  "(fst (executeRun now sandbox pol ops w) = Inr r \<and> status r = awaiting_approval
      \<and> op_id (ops ! (length (events r) - 1)) = None
      \<longrightarrow> map_option pa_operationId (pendingApproval r) = Some [])
   \<and> (fst st runId = Some run \<and> run_status run = awaiting_approval
      \<and> getSandbox svc (spaceId run) = Some sandbox' \<and> getPolicyEngine svc (spaceId run) = Some pol'
      \<longrightarrow> (fst (resume svc now' runId approval st) = Inl (OperationNotFound (ap_operationId approval))
           \<longleftrightarrow> Some (ap_operationId approval) \<notin> op_id ` set (operations run)))"
  using loop_pending_without_id [of now sandbox pol ops w r]
    resume_not_found_iff [of st runId run svc sandbox' pol' now' approval]
  by (simp add: executeRun_def)

theorem resume_without_id_witness:
  "map_option pa_operationId
     (pendingApproval (projr (fst (executeRun fixedClock recordingSandbox standardPolicy noIdBatch []))))
     = Some []
   \<and> fst (resume oneSpace fixedClock ''run_A'' (approve []) (afterCreate noIdBatch))
     = Inl (OperationNotFound [])"
proof -
  let ?x = "fst (executeRun fixedClock recordingSandbox standardPolicy noIdBatch [])"
  let ?run = "the (fst (afterCreate noIdBatch) ''run_A'')"
  have a: "?x = Inr (projr ?x) \<and> status (projr ?x) = awaiting_approval
      \<and> op_id (noIdBatch ! (length (events (projr ?x)) - 1)) = None"
    by code_simp
  have b: "fst (afterCreate noIdBatch) ''run_A'' = Some ?run \<and> run_status ?run = awaiting_approval
      \<and> spaceId ?run = ''spc_1'' \<and> operations ?run = noIdBatch"
    by code_simp
  then have c: "getSandbox oneSpace (spaceId ?run) = Some recordingSandbox
      \<and> getPolicyEngine oneSpace (spaceId ?run) = Some standardPolicy"
    by (simp add: oneSpace_def)
  have d: "Some (ap_operationId (approve [])) \<notin> op_id ` set (operations ?run)"
    using b by (simp add: noIdBatch_def approve_def)
  from resume_without_id [of fixedClock recordingSandbox standardPolicy noIdBatch "[]" "projr ?x"
      "afterCreate noIdBatch" "''run_A''" ?run oneSpace recordingSandbox standardPolicy fixedClock
      "approve []"] a b c d
  show ?thesis by (simp add: approve_def)
qed


end
